theory Spec2Isabelle
  imports Complex_Main "HOL-Library.Sublist" "HOL-Library.Char_ord" "HOL-Library.List_Lexorder"
begin

section \<open>Conventions of the embedding\<close>

text \<open>
  The development embeds the dashboard-driven SLI/SLO derivation of the Dynatrace handler
  (package \<open>dynatrace\<close>). Go strings are byte sequences and are modelled as \<open>string\<close>
  (a list of \<open>char\<close>). Values of type \<open>float64\<close> are modelled as \<open>real\<close>: rounding is
  not modelled, and the one place where the source divides by a length that can be zero
  is modelled with an explicit \<open>None\<close> (Go computes NaN there). HTTP traffic, JSON
  decoding and the helpers of package \<open>common_sli\<close> and of Go's \<open>net/url\<close> are outside the
  modelled sources; they enter as parameters (fields of the record \<open>Handler\<close> below), so
  every theorem holds for all their behaviours.
\<close>

section \<open>Functions of Go's \<open>strings\<close> package used by the handler\<close>

text \<open>\<open>strings.Contains s sub\<close> is \<^const>\<open>sublist\<close> \<open>sub s\<close>; \<open>strings.HasPrefix s p\<close> is
  \<^const>\<open>prefix\<close> \<open>p s\<close>.\<close>

definition Contains :: "string \<Rightarrow> string \<Rightarrow> bool" where
  "Contains s sub = sublist sub s"

definition HasPrefix :: "string \<Rightarrow> string \<Rightarrow> bool" where
  "HasPrefix s p = prefix p s"

text \<open>\<open>strings.Split s sep\<close> for a one-byte separator; the empty string splits into one
  empty piece.\<close>

fun Split :: "string \<Rightarrow> char \<Rightarrow> string list" where
  "Split [] sep = [[]]"
| "Split (c # cs) sep =
     (if c = sep then [] # Split cs sep
      else (case Split cs sep of [] \<Rightarrow> [[c]] | w # ws \<Rightarrow> (c # w) # ws))"

text \<open>\<open>strings.Index s sep\<close> for a one-byte separator: \<open>None\<close> stands for \<open>-1\<close>.\<close>

fun Index :: "string \<Rightarrow> char \<Rightarrow> nat option" where
  "Index [] sep = None"
| "Index (c # cs) sep = (if c = sep then Some 0 else map_option Suc (Index cs sep))"

text \<open>\<open>strconv.Itoa\<close>, also what \<open>%d\<close> prints.\<close>

fun digits :: "nat \<Rightarrow> string" where
  "digits n =
     (if n < 10 then [''0123456789'' ! n]
      else digits (n div 10) @ [''0123456789'' ! (n mod 10)])"

declare digits.simps [simp del]

definition Itoa :: "int \<Rightarrow> string" where
  "Itoa i = (if i < 0 then CHR ''-'' # digits (nat (- i)) else digits (nat i))"

text \<open>\<open>strings.Replace s old new 1\<close>: the first occurrence only.\<close>

fun Replace1 :: "string \<Rightarrow> string \<Rightarrow> string \<Rightarrow> string" where
  "Replace1 [] old new = (if old = [] then new else [])"
| "Replace1 (c # cs) old new =
     (if prefix old (c # cs) then new @ drop (length old) (c # cs)
      else c # Replace1 cs old new)"

section \<open>Unit scaling\<close>

text \<open>\<open>scaleData\<close>: microseconds (by unit, or by the response-time metric's identifier)
  become milliseconds, bytes become kilobytes.\<close>

definition scaleData :: "string \<Rightarrow> string \<Rightarrow> real \<Rightarrow> real" where
  "scaleData metricID unit v =
     (if unit = ''MicroSecond'' \<or> Contains metricID ''builtin:service.response.time''
      then v / 1000
      else if unit = ''Byte'' then v / 1024
      else v)"

section \<open>Dashboard identifiers\<close>

text \<open>\<open>IsValidUUID\<close> matches its argument against the anchored regular expression
  \<^verbatim>\<open>^[a-fA-F0-9]{8}-[a-fA-F0-9]{4}-4[a-fA-F0-9]{3}-[8|9|aA|bB][a-fA-F0-9]{3}-[a-fA-F0-9]{12}$\<close>.
  Every item of that expression consumes exactly one byte, so the expression is a list of
  character classes, one per position; a bracket expression is the set of the bytes
  written between its brackets.\<close>

definition class_hex :: "char \<Rightarrow> bool" where
  "class_hex c = (c \<in> set ''abcdefABCDEF0123456789'')"

definition class_variant :: "char \<Rightarrow> bool" where
  "class_variant c = (c \<in> set ''8|9|aA|bB'')"

definition class_lit :: "char \<Rightarrow> char \<Rightarrow> bool" where
  "class_lit l c = (c = l)"

definition uuid_regexp :: "(char \<Rightarrow> bool) list" where
  "uuid_regexp =
     replicate 8 class_hex @ [class_lit CHR ''-''] @
     replicate 4 class_hex @ [class_lit CHR ''-''] @
     [class_lit CHR ''4''] @ replicate 3 class_hex @ [class_lit CHR ''-''] @
     [class_variant] @ replicate 3 class_hex @ [class_lit CHR ''-''] @
     replicate 12 class_hex"

fun MatchString :: "(char \<Rightarrow> bool) list \<Rightarrow> string \<Rightarrow> bool" where
  "MatchString [] s = (s = [])"
| "MatchString (p # ps) [] = False"
| "MatchString (p # ps) (c # cs) = (p c \<and> MatchString ps cs)"

definition IsValidUUID :: "string \<Rightarrow> bool" where
  "IsValidUUID uuid = MatchString uuid_regexp uuid"

section \<open>Data model\<close>

text \<open>Points in time are Unix seconds; \<open>common_sli.TimestampToString\<close> turns them into
  the text the backend expects and is a parameter.\<close>

type_synonym Time = int

text \<open>A decoded JSON value of dynamic type (\<open>interface{}\<close>): the source asserts
  \<open>float64\<close> or \<open>string\<close> on it.\<close>

datatype jsonval = JNumber real | JString string | JOther

text \<open>What a Go function computes: a result, an \<open>error\<close> with its message, or a
  run-time panic (a failed type assertion, an index or slice bound out of range).\<close>

datatype 'a outcome = Ok 'a | Err string | Panic

record DashboardEntry =
  de_ID :: string
  de_Name :: string
  de_Owner :: string

record BaseKeptnEvent =
  Project :: string
  Stage :: string
  Service :: string

record ManagementZone =
  mz_ID :: string
  mz_Name :: string

record DashboardFilter =
  df_Timeframe :: string
  df_ManagementZone :: "ManagementZone option"

record Criterion =
  cr_Value :: string
  cr_Evaluator :: string

record NestedFilterDataExplorer =
  nf_Filter :: string
  nf_Criteria :: "Criterion list"

record FilterBy =
  fb_NestedFilters :: "NestedFilterDataExplorer list"

record DataExplorerQuery =
  dq_Metric :: string
  dq_SplitBy :: "string list"
  dq_FilterBy :: "FilterBy option"

record SeriesDimension =
  sd_ID :: string
  sd_Name :: string
  sd_Values :: "string list"

record ChartSeries =
  cs_Metric :: string
  cs_Aggregation :: string
  cs_Percentile :: jsonval
  cs_EntityType :: string
  cs_Dimensions :: "SeriesDimension list"

record Tile =
  t_Name :: string
  t_TileType :: string
  t_Query :: string
  t_Type :: string
  t_CustomName :: string
  t_Markdown :: string
  t_TileFilter :: DashboardFilter
  t_Queries :: "DataExplorerQuery list"
  t_AssignedEntities :: "string list"
  t_FilterConfig_CustomName :: string
  t_Series :: "ChartSeries list"
  t_FiltersPerEntityType :: "string \<rightharpoonup> (string \<rightharpoonup> string list)"

record DynatraceDashboard =
  dd_ID :: string
  dd_DashboardFilter :: "DashboardFilter option"
  dd_Tiles :: "Tile list"

record DimensionDefinition =
  dim_Name :: string
  dim_Key :: string

record MetricDefinition =
  md_MetricID :: string
  md_Unit :: string
  md_DefaultAggregation :: string
  md_DimensionDefinitions :: "DimensionDefinition list"
  md_EntityType :: "string list"

record MetricQueryResultNumbers =
  Dimensions :: "string list"
  Values :: "real list"

record MetricQueryResultValues =
  MetricID :: string
  Data :: "MetricQueryResultNumbers list"

record DynatraceMetricsQueryResult =
  Result :: "MetricQueryResultValues list"

record DynatraceSLOResult =
  slo_Name :: string
  slo_EvaluatedPercentage :: real
  slo_Error :: string
  slo_TargetSuccessOLD :: real
  slo_TargetWarningOLD :: real
  slo_Target :: real
  slo_Warning :: real

record DTUSQLResult =
  usql_Values :: "jsonval list list"

text \<open>\<open>keptnv2.SLIResult\<close>. \<open>Value\<close> is \<open>None\<close> where Go's \<open>float64\<close> holds NaN
  (the mean of no values).\<close>

record SLIResult =
  Metric :: string
  Value :: "real option"
  Success :: bool
  Message :: string

type_synonym SLOCriteria = "string list"

record SLO =
  SLI :: string
  Weight :: int
  KeySLI :: bool
  Pass :: "SLOCriteria list"
  Warning :: "SLOCriteria list"

record ServiceLevelObjectives =
  Objectives :: "SLO list"
  TotalScore_Pass :: string
  TotalScore_Warning :: string
  Comparison_CompareWith :: string
  Comparison_IncludeResultWithScore :: string
  Comparison_NumberOfComparisonResults :: int
  Comparison_AggregateFunction :: string

record SLI_doc =
  SpecVersion :: string
  Indicators :: "string \<rightharpoonup> string"

text \<open>\<open>url.URL\<close> as far as the handler uses it: \<open>String\<close> writes what precedes the
  query, then \<open>?\<close> and \<open>RawQuery\<close> when there is one (or \<open>ForceQuery\<close> is set), then
  the fragment part.\<close>

record URL =
  url_head :: string
  RawQuery :: string
  ForceQuery :: bool
  url_fragment :: string

text \<open>\<open>url.Values\<close>, a map from keys to their values in insertion order, kept as an
  association list with one entry per key.\<close>

type_synonym url_Values = "(string \<times> string list) list"

text \<open>The handler with the collaborators it calls. The fields after \<open>CustomFilters\<close> are
  parameters: functions of the Go standard library (\<open>strings.ToLower\<close>,
  \<open>strings.ToUpper\<close>, \<open>url.Parse\<close>, \<open>url.ParseQuery\<close>, \<open>fmt.Sprintf\<close> with
  \<open>%f\<close>, \<open>json.MarshalIndent\<close> of a dashboard, \<open>json.Marshal\<close> of a result entry),
  helpers of package \<open>common_sli\<close>, and the backend's
  answers. \<open>url.ParseQuery\<close> returns the values it could parse together with the first
  error (\<open>None\<close> for \<open>nil\<close>); \<open>GetKeptnResource\<close> is the stored \<open>dashboard.json\<close> of the
  event, a text together with an error.
  A backend answer is \<open>Inl\<close> with the error's text when the request, the status check
  (\<open>checkApiResponse\<close>) or the JSON decoding failed, and \<open>Inr\<close> with the decoded body
  otherwise; the backend answers the same request in the same way within one theorem.\<close>

record Handler =
  ApiURL :: string
  KeptnEvent :: BaseKeptnEvent
  CustomQueries :: "string \<rightharpoonup> string"
  CustomFilters :: "(string \<times> string) list"
  ToLower :: "string \<Rightarrow> string"
  ToUpper :: "string \<Rightarrow> string"
  url_Parse :: "string \<Rightarrow> string + URL"
  url_ParseQuery :: "string \<Rightarrow> url_Values \<times> string option"
  Sprintf_f :: "real \<Rightarrow> string"
  Sprintf_f_any :: "jsonval \<Rightarrow> string"
  MarshalIndent :: "DynatraceDashboard \<Rightarrow> string"
  Marshal :: "MetricQueryResultValues \<Rightarrow> string"
  TimestampToString :: "Time \<Rightarrow> string"
  CleanIndicatorName :: "string \<Rightarrow> string"
  ReplaceKeptnPlaceholders :: "string \<Rightarrow> BaseKeptnEvent \<Rightarrow> string"
  ParsePassAndWarningFromString ::
    "string \<Rightarrow> string \<times> SLOCriteria list \<times> SLOCriteria list \<times> int \<times> bool"
  ParseMarkdownConfiguration :: "string \<Rightarrow> ServiceLevelObjectives \<Rightarrow> ServiceLevelObjectives"
  GetKeptnResource :: "string \<times> string option"
  DynatraceConfigDashboardQUERY :: string
  GET_dashboards :: "string option + DashboardEntry list"
  GET_dashboard :: "string \<Rightarrow> string + DynatraceDashboard"
  GET_slo :: "string \<Rightarrow> string + DynatraceSLOResult"
  GET_problems :: "string \<Rightarrow> string + int"
  GET_securityProblems :: "string \<Rightarrow> string + int"
  GET_metric :: "string \<Rightarrow> string + MetricDefinition"
  GET_metrics_query :: "string \<Rightarrow> string + DynatraceMetricsQueryResult"
  GET_usql :: "string \<Rightarrow> string + DTUSQLResult"

section \<open>Finding the dashboard of a project, service and stage\<close>

text \<open>\<open>findDynatraceDashboard\<close>: the three inner loops of the source are kept as loops
  over the lists, each with the variable it updates.\<close>

definition findValues :: "Handler \<Rightarrow> BaseKeptnEvent \<Rightarrow> string list" where
  "findValues ph keptnEvent =
     [ToLower ph (''project='' @ Project keptnEvent),
      ToLower ph (''service='' @ Service keptnEvent),
      ToLower ph (''stage='' @ Stage keptnEvent)]"

fun foundValue_loop :: "Handler \<Rightarrow> string \<Rightarrow> string list \<Rightarrow> bool \<Rightarrow> bool" where
  "foundValue_loop ph findValue [] foundValue = foundValue"
| "foundValue_loop ph findValue (nameSplitValue # rest) foundValue =
     foundValue_loop ph findValue rest
       (if findValue = ToLower ph nameSplitValue then True else foundValue)"

fun dashboardMatch_loop :: "Handler \<Rightarrow> string list \<Rightarrow> string list \<Rightarrow> bool \<Rightarrow> bool" where
  "dashboardMatch_loop ph [] nameSplits dashboardMatch = dashboardMatch"
| "dashboardMatch_loop ph (findValue # rest) nameSplits dashboardMatch =
     dashboardMatch_loop ph rest nameSplits
       (if foundValue_loop ph findValue nameSplits False = False then False else dashboardMatch)"

fun dashboards_loop :: "Handler \<Rightarrow> string list \<Rightarrow> DashboardEntry list \<Rightarrow> string" where
  "dashboards_loop ph fvs [] = ''''"
| "dashboards_loop ph fvs (dashboard # rest) =
     (if HasPrefix (ToLower ph (de_Name dashboard)) ''kqg;'' \<and>
         dashboardMatch_loop ph fvs (Split (de_Name dashboard) CHR '';'') True
      then de_ID dashboard
      else dashboards_loop ph fvs rest)"

text \<open>The result pairs the identifier with the error (\<open>None\<close> for \<open>nil\<close>).\<close>

definition findDynatraceDashboard :: "Handler \<Rightarrow> BaseKeptnEvent \<Rightarrow> string \<times> string option" where
  "findDynatraceDashboard ph keptnEvent =
     (case GET_dashboards ph of
        Inl err \<Rightarrow> ('''', err)
      | Inr dashboards \<Rightarrow> (dashboards_loop ph (findValues ph keptnEvent) dashboards, None))"

text \<open>What the claim calls a name that carries the prefix and holds a key-value pair as
  one of its \<open>;\<close>-separated tokens, compared after lower-casing.\<close>

definition has_token :: "Handler \<Rightarrow> string \<Rightarrow> string \<Rightarrow> bool" where
  "has_token ph name kv = (ToLower ph kv \<in> ToLower ph ` set (Split name CHR '';''))"

definition names_dashboard_of :: "Handler \<Rightarrow> BaseKeptnEvent \<Rightarrow> string \<Rightarrow> bool" where
  "names_dashboard_of ph ev name =
     (HasPrefix (ToLower ph name) ''kqg;'' \<and>
      has_token ph name (''project='' @ Project ev) \<and>
      has_token ph name (''service='' @ Service ev) \<and>
      has_token ph name (''stage='' @ Stage ev))"

section \<open>Building the metrics query\<close>

text \<open>\<open>strings.Replace s old new (-1)\<close> for a non-empty \<open>old\<close> (the handler only
  replaces non-empty texts).\<close>

fun ReplaceAll :: "string \<Rightarrow> string \<Rightarrow> string \<Rightarrow> string" where
  "ReplaceAll [] old new = []"
| "ReplaceAll (c # cs) old new =
     (if old \<noteq> [] \<and> prefix old (c # cs)
      then new @ ReplaceAll (drop (length old) (c # cs)) old new
      else c # ReplaceAll cs old new)"

text \<open>\<open>replaceQueryParameters\<close>. The source also stores the filter values stripped of
  their quotes back into the handler; stripping is idempotent, so later calls compute
  the same text and the handler is not threaded through.\<close>

fun customfilters_loop :: "Handler \<Rightarrow> (string \<times> string) list \<Rightarrow> string \<Rightarrow> string" where
  "customfilters_loop ph [] query = query"
| "customfilters_loop ph ((filterKey, filterValue) # rest) query =
     (let v = ReplaceAll (ReplaceAll filterValue [CHR 0x27] []) [CHR 0x22] [];
          q1 = ReplaceAll query (CHR ''$'' # filterKey) v;
          q2 = ReplaceAll q1 (CHR ''$'' # ToUpper ph filterKey) v
      in customfilters_loop ph rest q2)"

definition replaceQueryParameters :: "Handler \<Rightarrow> string \<Rightarrow> string" where
  "replaceQueryParameters ph query =
     ReplaceKeptnPlaceholders ph (customfilters_loop ph (CustomFilters ph) query) (KeptnEvent ph)"

text \<open>\<open>url.Values\<close>: \<open>Add\<close> appends to the values of a key, \<open>Get\<close> reads the first
  value of a key or the empty string.\<close>

fun Add :: "url_Values \<Rightarrow> string \<Rightarrow> string \<Rightarrow> url_Values" where
  "Add [] k v = [(k, [v])]"
| "Add ((k', vs) # q) k v = (if k' = k then (k', vs @ [v]) # q else (k', vs) # Add q k v)"

definition values_of :: "url_Values \<Rightarrow> string \<Rightarrow> string list" where
  "values_of q k = (case map_of q k of None \<Rightarrow> [] | Some vs \<Rightarrow> vs)"

definition Get :: "url_Values \<Rightarrow> string \<Rightarrow> string" where
  "Get q k = (case values_of q k of [] \<Rightarrow> '''' | v # _ \<Rightarrow> v)"

text \<open>\<open>url.QueryEscape\<close>: letters, digits and \<open>-_.~\<close> stay, a space becomes \<open>+\<close>, every
  other byte becomes \<open>%\<close> and two upper-case hexadecimal digits.\<close>

definition shouldEscape :: "char \<Rightarrow> bool" where
  "shouldEscape c =
     (c \<notin> set ''abcdefghijklmnopqrstuvwxyzABCDEFGHIJKLMNOPQRSTUVWXYZ0123456789-_.~'')"

definition upperhex :: "nat \<Rightarrow> char" where
  "upperhex n = ''0123456789ABCDEF'' ! (n mod 16)"

definition escape_byte :: "char \<Rightarrow> string" where
  "escape_byte c =
     (if shouldEscape c
      then (if c = CHR '' '' then ''+''
            else [CHR ''%'', upperhex (of_char c div 16), upperhex (of_char c)])
      else [c])"

definition QueryEscape :: "string \<Rightarrow> string" where
  "QueryEscape s = concat (map escape_byte s)"

text \<open>\<open>strings.Join\<close>, and \<open>Values.Encode\<close>: the keys in sorted order, each value of a
  key as \<open>key=value\<close>, both escaped, the pieces joined by \<open>&\<close>.\<close>

fun Join :: "string list \<Rightarrow> string \<Rightarrow> string" where
  "Join [] sep = []"
| "Join [x] sep = x"
| "Join (x # y # ys) sep = x @ sep @ Join (y # ys) sep"

definition Encode_pieces :: "url_Values \<Rightarrow> string list" where
  "Encode_pieces q =
     concat (map (\<lambda>k. map (\<lambda>v. QueryEscape k @ ''='' @ QueryEscape v) (values_of q k))
                 (sort (remdups (map fst q))))"

definition Encode :: "url_Values \<Rightarrow> string" where
  "Encode q = Join (Encode_pieces q) ''&''"

definition URL_String :: "URL \<Rightarrow> string" where
  "URL_String u =
     url_head u @ (if ForceQuery u \<or> RawQuery u \<noteq> [] then ''?'' @ RawQuery u else []) @
     url_fragment u"

text \<open>\<open>BuildDynatraceMetricsQuery\<close>, in two steps: the text handed to \<open>url.Parse\<close>
  together with the metric selector of the old format (the part before the first \<open>?\<close>,
  empty in the new format), then parsing, the added parameters and the encoding.\<close>

definition metricsTargetURL :: "Handler \<Rightarrow> string \<Rightarrow> string \<times> string" where
  "metricsTargetURL ph metricquery =
     (let mq0 = replaceQueryParameters ph metricquery;
          mq = (if HasPrefix mq0 ''?metricSelector=''
                then Replace1 mq0 ''?metricSelector='' ''metricSelector='' else mq0);
          (metricSelector, metricQueryParams) =
             (case Split mq CHR ''?'' of
                [] \<Rightarrow> ('''', '''')
              | [p] \<Rightarrow> ('''', p)
              | a # b # _ \<Rightarrow> (a, ''metricSelector='' @ a @ ''&'' @ b))
      in (ApiURL ph @ ''/api/v2/metrics/query/?'' @ metricQueryParams, metricSelector))"

definition scopeToEntitySelector :: "string \<Rightarrow> string" where
  "scopeToEntitySelector scopeData =
     (if \<not> Contains scopeData ''type(SERVICE)'' then scopeData @ '',type(SERVICE)''
      else scopeData)"

definition BuildDynatraceMetricsQuery ::
    "Handler \<Rightarrow> string \<Rightarrow> Time \<Rightarrow> Time \<Rightarrow> string + (string \<times> string)" where
  "BuildDynatraceMetricsQuery ph metricquery startUnix endUnix =
     (let (targetURL, metricSelector) = metricsTargetURL ph metricquery
      in case url_Parse ph targetURL of
           Inl e \<Rightarrow> Inl (''could not parse metrics URL: '' @ e)
         | Inr u \<Rightarrow>
            (case url_ParseQuery ph (RawQuery u) of
               (q0, Some e) \<Rightarrow> Inl (''could not parse metrics URL: '' @ e)
             | (q0, None) \<Rightarrow>
                (let q1 = Add (Add (Add q0 ''resolution'' ''Inf'')
                                 ''from'' (TimestampToString ph startUnix))
                                 ''to'' (TimestampToString ph endUnix);
                     scopeData = Get q1 ''scope'';
                     q2 = (if scopeData \<noteq> ''''
                           then Add q1 ''entitySelector'' (scopeToEntitySelector scopeData)
                           else q1);
                     metricSelector' =
                        (if metricSelector = '''' then Get q2 ''metricSelector''
                         else metricSelector)
                 in Inr (URL_String (u\<lparr>RawQuery := Encode q2\<rparr>), metricSelector'))))"

section \<open>Calling the backend\<close>

text \<open>Each \<open>Execute\<close> function sends one request and adds its own check to the decoded
  answer; the error texts of the request itself are part of the backend's answer.\<close>

definition ExecuteMetricsAPIQuery ::
    "Handler \<Rightarrow> string \<Rightarrow> string + DynatraceMetricsQueryResult" where
  "ExecuteMetricsAPIQuery ph metricsQuery =
     (case GET_metrics_query ph metricsQuery of
        Inl err \<Rightarrow> Inl err
      | Inr r \<Rightarrow>
          if length (Result r) = 0 then Inl ''Dynatrace Metrics API returned no DataPoints''
          else Inr r)"

definition ExecuteGetDynatraceSLO ::
    "Handler \<Rightarrow> string \<Rightarrow> Time \<Rightarrow> Time \<Rightarrow> string + DynatraceSLOResult" where
  "ExecuteGetDynatraceSLO ph sloID startUnix endUnix =
     (case GET_slo ph (ApiURL ph @ ''/api/v2/slo/'' @ sloID @ ''?from='' @
                        TimestampToString ph startUnix @ ''&to='' @
                        TimestampToString ph endUnix) of
        Inl err \<Rightarrow> Inl err
      | Inr r \<Rightarrow>
          if slo_Error r \<noteq> ''NONE''
          then Inl (''Dynatrace API returned an error: '' @ slo_Error r)
          else Inr r)"

definition ExecuteGetDynatraceProblems :: "Handler \<Rightarrow> string \<Rightarrow> Time \<Rightarrow> Time \<Rightarrow> string + int" where
  "ExecuteGetDynatraceProblems ph problemQuery startUnix endUnix =
     GET_problems ph (ApiURL ph @ ''/api/v2/problems?from='' @ TimestampToString ph startUnix @
                      ''&to='' @ TimestampToString ph endUnix @ ''&'' @ problemQuery)"

definition ExecuteGetDynatraceSecurityProblems ::
    "Handler \<Rightarrow> string \<Rightarrow> Time \<Rightarrow> Time \<Rightarrow> string + int" where
  "ExecuteGetDynatraceSecurityProblems ph problemQuery startUnix endUnix =
     GET_securityProblems ph
       (ApiURL ph @ ''/api/v2/securityProblems?from='' @ TimestampToString ph startUnix @
        ''&to='' @ TimestampToString ph endUnix @ ''&'' @ problemQuery)"

definition ExecuteMetricAPIDescribe :: "Handler \<Rightarrow> string \<Rightarrow> string + MetricDefinition" where
  "ExecuteMetricAPIDescribe ph metricID = GET_metric ph (ApiURL ph @ ''/api/v2/metrics/'' @ metricID)"

definition ExecuteUSQLQuery :: "Handler \<Rightarrow> string \<Rightarrow> string + DTUSQLResult" where
  "ExecuteUSQLQuery ph usql =
     (case GET_usql ph usql of
        Inl err \<Rightarrow> Inl err
      | Inr r \<Rightarrow>
          if length (usql_Values r) = 0
          then Inl ''Dynatrace USQL Query didnt return any DataPoints''
          else Inr r)"

text \<open>\<open>BuildDynatraceUSQLQuery\<close> ignores the errors of both parsers; without a parsed
  URL the next field access panics.\<close>

definition BuildDynatraceUSQLQuery :: "Handler \<Rightarrow> string \<Rightarrow> Time \<Rightarrow> Time \<Rightarrow> string outcome" where
  "BuildDynatraceUSQLQuery ph query startUnix endUnix =
     (let usql = replaceQueryParameters ph query
      in case url_Parse ph (ApiURL ph @ ''/api/v1/userSessionQueryLanguage/table'') of
           Inl e \<Rightarrow> Panic
         | Inr u \<Rightarrow>
            (let q0 = fst (url_ParseQuery ph (RawQuery u));
                 q = Add (Add (Add (Add (Add q0 ''query'' usql) ''explain'' ''false'')
                        ''addDeepLinkFields'' ''false'')
                        ''startTimestamp'' (TimestampToString ph startUnix))
                        ''endTimestamp'' (TimestampToString ph endUnix)
             in Ok (URL_String (u\<lparr>RawQuery := Encode q\<rparr>))))"

text \<open>One row of a USQL answer, read as the tile type says: the dimension name and the
  value, nothing for a tile type the handler does not know, or a panic when the row is
  too short or a cell has another type than asserted.\<close>

datatype usql_row = RowValue string real | RowSkipped | RowPanic

definition cell_float :: "jsonval list \<Rightarrow> nat \<Rightarrow> real option" where
  "cell_float rowValue i =
     (if i < length rowValue then (case rowValue ! i of JNumber r \<Rightarrow> Some r | _ \<Rightarrow> None)
      else None)"

definition cell_string :: "jsonval list \<Rightarrow> nat \<Rightarrow> string option" where
  "cell_string rowValue i =
     (if i < length rowValue then (case rowValue ! i of JString s \<Rightarrow> Some s | _ \<Rightarrow> None)
      else None)"

definition named_cell :: "jsonval list \<Rightarrow> nat \<Rightarrow> usql_row" where
  "named_cell rowValue i =
     (case cell_string rowValue 0 of
        None \<Rightarrow> RowPanic
      | Some dimensionName \<Rightarrow>
          (case cell_float rowValue i of
             None \<Rightarrow> RowPanic
           | Some dimensionValue \<Rightarrow> RowValue dimensionName dimensionValue))"

definition read_usql_row :: "string \<Rightarrow> jsonval list \<Rightarrow> usql_row" where
  "read_usql_row tileType rowValue =
     (if tileType = ''SINGLE_VALUE''
      then (case cell_float rowValue 0 of None \<Rightarrow> RowPanic | Some v \<Rightarrow> RowValue '''' v)
      else if tileType = ''PIE_CHART'' then named_cell rowValue 1
      else if tileType = ''COLUMN_CHART'' then named_cell rowValue 1
      else if tileType = ''TABLE'' then named_cell rowValue (length rowValue - 1)
      else RowSkipped)"

section \<open>Resolving one indicator: \<open>GetSLIValue\<close>\<close>

definition getTimeseriesConfig :: "Handler \<Rightarrow> string \<Rightarrow> string + string" where
  "getTimeseriesConfig ph metric =
     (case CustomQueries ph metric of
        Some val \<Rightarrow> Inr val
      | None \<Rightarrow>
         if metric = ''throughput'' then
           Inr ''metricSelector=builtin:service.requestCount.total:merge(0):sum&entitySelector=type(SERVICE),tag(keptn_project:$PROJECT),tag(keptn_stage:$STAGE),tag(keptn_service:$SERVICE),tag(keptn_deployment:$DEPLOYMENT)''
         else if metric = ''error_rate'' then
           Inr ''metricSelector=builtin:service.errors.total.rate:merge(0):avg&entitySelector=type(SERVICE),tag(keptn_project:$PROJECT),tag(keptn_stage:$STAGE),tag(keptn_service:$SERVICE),tag(keptn_deployment:$DEPLOYMENT)''
         else if metric = ''response_time_p50'' then
           Inr ''metricSelector=builtin:service.response.time:merge(0):percentile(50)&entitySelector=type(SERVICE),tag(keptn_project:$PROJECT),tag(keptn_stage:$STAGE),tag(keptn_service:$SERVICE),tag(keptn_deployment:$DEPLOYMENT)''
         else if metric = ''response_time_p90'' then
           Inr ''metricSelector=builtin:service.response.time:merge(0):percentile(90)&entitySelector=type(SERVICE),tag(keptn_project:$PROJECT),tag(keptn_stage:$STAGE),tag(keptn_service:$SERVICE),tag(keptn_deployment:$DEPLOYMENT)''
         else if metric = ''response_time_p95'' then
           Inr ''metricSelector=builtin:service.response.time:merge(0):percentile(95)&entitySelector=type(SERVICE),tag(keptn_project:$PROJECT),tag(keptn_stage:$STAGE),tag(keptn_service:$SERVICE),tag(keptn_deployment:$DEPLOYMENT)''
         else Inl (''Unsupported SLI metric '' @ metric))"

text \<open>\<open>isMatchingMetricID\<close>: equal identifiers match; a result identifier with a \<open>~\<close>
  and a \<open>:\<close> matches when the texts before the first \<open>:\<close> agree.\<close>

definition before_colon :: "string \<Rightarrow> string" where
  "before_colon s = (case Split s CHR '':'' of [] \<Rightarrow> [] | x # _ \<Rightarrow> x)"

definition isMatchingMetricID :: "string \<Rightarrow> string \<Rightarrow> bool" where
  "isMatchingMetricID singleResultMetricID queryMetricID =
     (if singleResultMetricID = queryMetricID then True
      else if Contains singleResultMetricID ''~'' then
        (if Contains singleResultMetricID '':'' then
           (if before_colon singleResultMetricID = before_colon queryMetricID then True
            else False)
         else False)
      else False)"

text \<open>Each branch of \<open>GetSLIValue\<close> leaves the pair of \<open>metricIDExists\<close> and
  \<open>actualMetricValue\<close>, or returns early.\<close>

fun usql_rows_loop :: "string \<Rightarrow> string \<Rightarrow> jsonval list list \<Rightarrow> bool \<times> real \<Rightarrow> (bool \<times> real) outcome" where
  "usql_rows_loop tileName requestedDimensionName [] st = Ok st"
| "usql_rows_loop tileName requestedDimensionName (rowValue # rest) st =
     (case read_usql_row tileName rowValue of
        RowPanic \<Rightarrow> Panic
      | RowSkipped \<Rightarrow> usql_rows_loop tileName requestedDimensionName rest st
      | RowValue dimensionName dimensionValue \<Rightarrow>
          usql_rows_loop tileName requestedDimensionName rest
            (if dimensionName = requestedDimensionName then (True, dimensionValue) else st))"

definition GetSLIValue_USQL :: "Handler \<Rightarrow> string \<Rightarrow> Time \<Rightarrow> Time \<Rightarrow> (bool \<times> real) outcome" where
  "GetSLIValue_USQL ph metricsQuery startUnix endUnix =
     (case Split metricsQuery CHR '';'' of
        [q0, tileName, requestedDimensionName, usqlRawQuery] \<Rightarrow>
          (case BuildDynatraceUSQLQuery ph usqlRawQuery startUnix endUnix of
             Panic \<Rightarrow> Panic
           | Err e \<Rightarrow> Err e
           | Ok usql \<Rightarrow>
              (case ExecuteUSQLQuery ph usql of
                 Inl e \<Rightarrow> Err (''Error executing USQL Query '' @ e)
               | Inr usqlResult \<Rightarrow>
                   usql_rows_loop tileName requestedDimensionName (usql_Values usqlResult)
                     (False, 0)))
      | _ \<Rightarrow> Err (''USQL Query incorrect format: '' @ metricsQuery))"

definition GetSLIValue_SLO :: "Handler \<Rightarrow> string \<Rightarrow> Time \<Rightarrow> Time \<Rightarrow> (bool \<times> real) outcome" where
  "GetSLIValue_SLO ph metricsQuery startUnix endUnix =
     (case Split metricsQuery CHR '';'' of
        [q0, sloID] \<Rightarrow>
          (case ExecuteGetDynatraceSLO ph sloID startUnix endUnix of
             Inl e \<Rightarrow> Err (''Error executing SLO Dynatrace Query '' @ e)
           | Inr sloResult \<Rightarrow> Ok (True, slo_EvaluatedPercentage sloResult))
      | _ \<Rightarrow> Err (''SLO Indicator query has wrong format. Should be SLO;<SLID> but is: '' @
                  metricsQuery))"

definition GetSLIValue_PV2 :: "Handler \<Rightarrow> string \<Rightarrow> Time \<Rightarrow> Time \<Rightarrow> (bool \<times> real) outcome" where
  "GetSLIValue_PV2 ph metricsQuery startUnix endUnix =
     (case Split metricsQuery CHR '';'' of
        [q0, problemQuery] \<Rightarrow>
          (case ExecuteGetDynatraceProblems ph problemQuery startUnix endUnix of
             Inl e \<Rightarrow> Err (''Error executing Dynatrace Problem v2 Query '' @ e)
           | Inr totalCount \<Rightarrow> Ok (True, real_of_int totalCount))
      | _ \<Rightarrow> Err (''Problemv2 Indicator query has wrong format. Should be PV2;entitySelectory=selector&problemSelector=selector but is: '' @ metricsQuery))"

definition GetSLIValue_SECPV2 :: "Handler \<Rightarrow> string \<Rightarrow> Time \<Rightarrow> Time \<Rightarrow> (bool \<times> real) outcome" where
  "GetSLIValue_SECPV2 ph metricsQuery startUnix endUnix =
     (case Split metricsQuery CHR '';'' of
        [q0, problemQuery] \<Rightarrow>
          (case ExecuteGetDynatraceSecurityProblems ph problemQuery startUnix endUnix of
             Inl e \<Rightarrow> Err (''Error executing Dynatrace Security Problem v2 Query '' @ e)
           | Inr totalCount \<Rightarrow> Ok (True, real_of_int totalCount))
      | _ \<Rightarrow> Err (''Security Problemv2 Indicator query has wrong format. Should be SECPV2;securityProblemSelector=selector but is: '' @ metricsQuery))"

text \<open>The metrics branch. An \<open>MV2;\<close> prefix is cut off and the text up to the next \<open>;\<close>
  is the unit; without a further \<open>;\<close> the slice bound is \<open>-1\<close> and Go panics. The loop
  over the results stops at the first entry whose identifier matches: with other than
  one data row it returns the error, with a row without values the index panics.\<close>

definition cut_MV2 :: "string \<Rightarrow> (string \<times> string) outcome" where
  "cut_MV2 metricsQuery =
     (if HasPrefix metricsQuery ''MV2;'' then
        (let rest = drop 4 metricsQuery
         in case Index rest CHR '';'' of
              None \<Rightarrow> Panic
            | Some queryStartIndex \<Rightarrow> Ok (take queryStartIndex rest, drop (queryStartIndex + 1) rest))
      else Ok ('''', metricsQuery))"

definition ambiguous_result_message :: "Handler \<Rightarrow> string \<Rightarrow> MetricQueryResultValues \<Rightarrow> string" where
  "ambiguous_result_message ph metricsQuery i =
     ''Dynatrace Metrics API returned '' @ Itoa (int (length (Data i))) @
     '' result values, expected 1 for query: '' @ metricsQuery @ ''.'' @ [CHR 0x0A] @
     ''Please ensure the response contains exactly one value (e.g., by using :merge(0):avg for the metric). Here is the output for troubleshooting: '' @
     Marshal ph i"

fun metrics_results_loop :: "Handler \<Rightarrow> string \<Rightarrow> string \<Rightarrow> MetricQueryResultValues list \<Rightarrow> (bool \<times> real) outcome" where
  "metrics_results_loop ph metricsQuery metricID [] = Ok (False, 0)"
| "metrics_results_loop ph metricsQuery metricID (i # rest) =
     (if isMatchingMetricID (MetricID i) metricID then
        (if length (Data i) \<noteq> 1
         then Err (ambiguous_result_message ph metricsQuery i)
         else (case Values (hd (Data i)) of [] \<Rightarrow> Panic | v # _ \<Rightarrow> Ok (True, v)))
      else metrics_results_loop ph metricsQuery metricID rest)"

definition GetSLIValue_metrics :: "Handler \<Rightarrow> string \<Rightarrow> Time \<Rightarrow> Time \<Rightarrow> (bool \<times> real) outcome" where
  "GetSLIValue_metrics ph metricsQuery0 startUnix endUnix =
     (case cut_MV2 metricsQuery0 of
        Panic \<Rightarrow> Panic
      | Err e \<Rightarrow> Err e
      | Ok (metricUnit, metricsQuery1) \<Rightarrow>
         (case BuildDynatraceMetricsQuery ph metricsQuery1 startUnix endUnix of
            Inl e \<Rightarrow> Err e
          | Inr (metricsQuery, metricID) \<Rightarrow>
             (case ExecuteMetricsAPIQuery ph metricsQuery of
                Inl e \<Rightarrow> Err (''Dynatrace Metrics API returned an error: '' @ e @
                              ''. This was the query executed: '' @ metricsQuery)
              | Inr result \<Rightarrow>
                 (case metrics_results_loop ph metricsQuery metricID (Result result) of
                    Panic \<Rightarrow> Panic
                  | Err e \<Rightarrow> Err e
                  | Ok (metricIDExists, actualMetricValue) \<Rightarrow>
                      Ok (metricIDExists, scaleData metricID metricUnit actualMetricValue)))))"

definition GetSLIValue :: "Handler \<Rightarrow> string \<Rightarrow> Time \<Rightarrow> Time \<Rightarrow> real outcome" where
  "GetSLIValue ph metric startUnix endUnix =
     (case getTimeseriesConfig ph metric of
        Inl e \<Rightarrow> Err (''Error when fetching SLI config for '' @ metric @ '' '' @ e @ ''.'')
      | Inr metricsQuery \<Rightarrow>
         (case (if HasPrefix metricsQuery ''USQL;''
                  then GetSLIValue_USQL ph metricsQuery startUnix endUnix
                else if HasPrefix metricsQuery ''SLO;''
                  then GetSLIValue_SLO ph metricsQuery startUnix endUnix
                else if HasPrefix metricsQuery ''PV2;''
                  then GetSLIValue_PV2 ph metricsQuery startUnix endUnix
                else if HasPrefix metricsQuery ''SECPV2;''
                  then GetSLIValue_SECPV2 ph metricsQuery startUnix endUnix
                else GetSLIValue_metrics ph metricsQuery startUnix endUnix) of
            Panic \<Rightarrow> Panic
          | Err e \<Rightarrow> Err e
          | Ok (metricIDExists, actualMetricValue) \<Rightarrow>
              if \<not> metricIDExists
              then Err (''Not able to query identifier '' @ metric @ '' from Dynatrace'')
              else Ok actualMetricValue))"

section \<open>Synthesis of indicators from a metrics query\<close>

text \<open>The arguments of \<open>GenerateSLISLOFromMetricsAPIQuery\<close>, and the three outputs it
  grows: the results it returns, the indicators of \<open>dashboardSLI\<close> and the objectives of
  \<open>dashboardSLO\<close> (both are written through pointers in the source).\<close>

record gen_args =
  arg_noOfDimensionsInChart :: nat
  arg_baseIndicatorName :: string
  arg_passSLOs :: "SLOCriteria list"
  arg_warningSLOs :: "SLOCriteria list"
  arg_weight :: int
  arg_keySli :: bool
  arg_metricID :: string
  arg_metricUnit :: string
  arg_metricQuery :: string
  arg_fullMetricQuery :: string
  arg_filterSLIDefinitionAggregator :: string
  arg_entitySelectorSLIDefinition :: string

type_synonym gen_state = "SLIResult list \<times> SLI_doc \<times> ServiceLevelObjectives"

text \<open>The loop over the dimensions of one data entry, \<open>dimIx\<close> advancing by
  \<open>dimensionIncrement\<close>: the list argument is what remains from \<open>dimIx\<close> on. The state is
  the indicator name, the text that replaces \<open>:names\<close>, and the query of the
  indicator.\<close>

fun dimensions_loop ::
    "nat \<Rightarrow> string \<Rightarrow> string \<Rightarrow> string list \<Rightarrow> string \<times> string \<times> string \<Rightarrow>
     (string \<times> string \<times> string) outcome" where
  "dimensions_loop dimensionIncrement fAgg eSel [] st = Ok st"
| "dimensions_loop dimensionIncrement fAgg eSel (dimensionValue # rest)
       (indicatorName, filterValue, metricQueryForSLI) =
     (let indicatorName' = indicatorName @ ''_'' @ dimensionValue;
          filterValue' = '':names'' @ Replace1 fAgg ''FILTERDIMENSIONVALUE'' dimensionValue
      in if eSel \<noteq> '''' \<and> dimensionIncrement = 2 then
           (case rest of
              [] \<Rightarrow> Panic
            | dimensionEntityID # _ \<Rightarrow>
                dimensions_loop dimensionIncrement fAgg eSel (drop (dimensionIncrement - 1) rest)
                  (indicatorName', filterValue',
                   metricQueryForSLI @ Replace1 eSel ''FILTERDIMENSIONVALUE'' dimensionEntityID))
         else dimensions_loop dimensionIncrement fAgg eSel (drop (dimensionIncrement - 1) rest)
                (indicatorName', filterValue', metricQueryForSLI))"

text \<open>The mean of the values of a data entry; \<open>None\<close> is the NaN of \<open>0 / 0\<close>.\<close>

definition mean :: "real list \<Rightarrow> real option" where
  "mean vs = (if vs = [] then None else Some (foldl (+) 0 vs / real (length vs)))"

definition dimensionIncrement_of :: "gen_args \<Rightarrow> MetricQueryResultNumbers \<Rightarrow> nat" where
  "dimensionIncrement_of a singleDataEntry =
     (if length (Dimensions singleDataEntry) \<noteq> arg_noOfDimensionsInChart a * 2 then 1 else 2)"

definition process_data_entry ::
    "Handler \<Rightarrow> gen_args \<Rightarrow> nat \<Rightarrow> MetricQueryResultNumbers \<Rightarrow> gen_state \<Rightarrow> gen_state outcome" where
  "process_data_entry ph a dataResultCount singleDataEntry st =
     (case (if dataResultCount > 1
            then dimensions_loop (dimensionIncrement_of a singleDataEntry)
                   (arg_filterSLIDefinitionAggregator a) (arg_entitySelectorSLIDefinition a)
                   (Dimensions singleDataEntry)
                   (arg_baseIndicatorName a, '':names'', arg_metricQuery a)
            else Ok (arg_baseIndicatorName a, '':names'', arg_metricQuery a)) of
        Panic \<Rightarrow> Panic
      | Err e \<Rightarrow> Err e
      | Ok (indicatorName0, filterValue, metricQueryForSLI) \<Rightarrow>
         (case st of (sliResults, dashboardSLI, dashboardSLO) \<Rightarrow>
           (let indicatorName = CleanIndicatorName ph indicatorName0;
                v = map_option (scaleData (arg_metricID a) (arg_metricUnit a)) (mean (Values singleDataEntry))
            in Ok (sliResults @ [\<lparr>Metric = indicatorName, Value = v, Success = True, Message = ''''\<rparr>],
                   dashboardSLI\<lparr>Indicators := (Indicators dashboardSLI)
                      (indicatorName \<mapsto> ''MV2;'' @ arg_metricUnit a @ '';'' @
                                         Replace1 metricQueryForSLI '':names'' filterValue)\<rparr>,
                   dashboardSLO\<lparr>Objectives := Objectives dashboardSLO @
                      [\<lparr>SLI = indicatorName, Weight = arg_weight a, KeySLI = arg_keySli a,
                        Pass = arg_passSLOs a, Warning = arg_warningSLOs a\<rparr>]\<rparr>))))"

fun data_loop ::
    "Handler \<Rightarrow> gen_args \<Rightarrow> nat \<Rightarrow> MetricQueryResultNumbers list \<Rightarrow> gen_state \<Rightarrow> gen_state outcome" where
  "data_loop ph a dataResultCount [] st = Ok st"
| "data_loop ph a dataResultCount (singleDataEntry # rest) st =
     (case process_data_entry ph a dataResultCount singleDataEntry st of
        Panic \<Rightarrow> Panic
      | Err e \<Rightarrow> Err e
      | Ok st' \<Rightarrow> data_loop ph a dataResultCount rest st')"

fun results_loop ::
    "Handler \<Rightarrow> gen_args \<Rightarrow> MetricQueryResultValues list \<Rightarrow> gen_state \<Rightarrow> gen_state outcome" where
  "results_loop ph a [] st = Ok st"
| "results_loop ph a (singleResult # rest) st =
     (if isMatchingMetricID (MetricID singleResult) (arg_metricID a) then
        (case data_loop ph a (length (Data singleResult)) (Data singleResult) st of
           Panic \<Rightarrow> Panic
         | Err e \<Rightarrow> Err e
         | Ok st' \<Rightarrow> results_loop ph a rest st')
      else results_loop ph a rest st)"

text \<open>\<open>GenerateSLISLOFromMetricsAPIQuery\<close> returns its own results (the first
  component) and the updated \<open>dashboardSLI\<close> and \<open>dashboardSLO\<close>.\<close>

definition GenerateSLISLOFromMetricsAPIQuery ::
    "Handler \<Rightarrow> gen_args \<Rightarrow> SLI_doc \<Rightarrow> ServiceLevelObjectives \<Rightarrow> gen_state outcome" where
  "GenerateSLISLOFromMetricsAPIQuery ph a dashboardSLI dashboardSLO =
     (case ExecuteMetricsAPIQuery ph (arg_fullMetricQuery a) of
        Inl err \<Rightarrow>
          Ok ([\<lparr>Metric = arg_baseIndicatorName a, Value = Some 0, Success = False, Message = err\<rparr>],
              dashboardSLI\<lparr>Indicators := (Indicators dashboardSLI)
                 (arg_baseIndicatorName a \<mapsto> arg_metricQuery a)\<rparr>,
              dashboardSLO)
      | Inr queryResult \<Rightarrow> results_loop ph a (Result queryResult) ([], dashboardSLI, dashboardSLO))"

text \<open>The values of a list taken at a stride, and the name the claim describes for a
  data row: the base name followed by \<open>_\<close> and a dimension value for each position the
  stride reaches.\<close>

fun at_stride :: "nat \<Rightarrow> 'a list \<Rightarrow> 'a list" where
  "at_stride k [] = []"
| "at_stride k (x # xs) = x # at_stride k (drop (k - 1) xs)"

definition suffixed_name :: "gen_args \<Rightarrow> MetricQueryResultNumbers \<Rightarrow> string" where
  "suffixed_name a row =
     arg_baseIndicatorName a @
     concat (map (\<lambda>dimensionValue. CHR ''_'' # dimensionValue)
                 (at_stride (dimensionIncrement_of a row) (Dimensions row)))"

text \<open>The result and the objective of a data row under that name.\<close>

definition row_result :: "Handler \<Rightarrow> gen_args \<Rightarrow> MetricQueryResultNumbers \<Rightarrow> SLIResult" where
  "row_result ph a row =
     \<lparr>Metric = CleanIndicatorName ph (suffixed_name a row),
      Value = map_option (scaleData (arg_metricID a) (arg_metricUnit a)) (mean (Values row)),
      Success = True, Message = ''''\<rparr>"

definition row_objective :: "Handler \<Rightarrow> gen_args \<Rightarrow> MetricQueryResultNumbers \<Rightarrow> SLO" where
  "row_objective ph a row =
     \<lparr>SLI = CleanIndicatorName ph (suffixed_name a row), Weight = arg_weight a,
      KeySLI = arg_keySli a, Pass = arg_passSLOs a, Warning = arg_warningSLOs a\<rparr>"

section \<open>Tile processors\<close>

type_synonym tile_output = "SLIResult \<times> string \<times> string \<times> SLO"

definition ProcessSLOTile :: "Handler \<Rightarrow> string \<Rightarrow> Time \<Rightarrow> Time \<Rightarrow> string + tile_output" where
  "ProcessSLOTile ph sloID startUnix endUnix =
     (case ExecuteGetDynatraceSLO ph sloID startUnix endUnix of
        Inl err \<Rightarrow> Inl err
      | Inr sloResult \<Rightarrow>
         (let indicatorName = CleanIndicatorName ph (slo_Name sloResult);
              sliResult = \<lparr>Metric = indicatorName,
                           Value = Some (slo_EvaluatedPercentage sloResult),
                           Success = True, Message = ''''\<rparr>;
              sliQuery = ''SLO;'' @ sloID;
              warning = (if slo_Warning sloResult \<le> 0 then slo_TargetWarningOLD sloResult
                         else slo_Warning sloResult);
              target = (if slo_Target sloResult \<le> 0 then slo_TargetSuccessOLD sloResult
                        else slo_Target sloResult);
              sloString = ''sli='' @ indicatorName @ '';pass=>='' @ Sprintf_f ph warning @
                          '';warning=>='' @ Sprintf_f ph target;
              (n, passSLOs, warningSLOs, weight, keySli) =
                 ParsePassAndWarningFromString ph sloString
          in Inr (sliResult, indicatorName, sliQuery,
                  \<lparr>SLI = indicatorName, Weight = weight, KeySLI = keySli,
                   Pass = passSLOs, Warning = warningSLOs\<rparr>)))"

definition ProcessOpenProblemTile ::
    "Handler \<Rightarrow> string \<Rightarrow> string \<Rightarrow> Time \<Rightarrow> Time \<Rightarrow> string + tile_output" where
  "ProcessOpenProblemTile ph problemSelector entitySelector startUnix endUnix =
     (let problemQuery0 = (if problemSelector \<noteq> '''' then ''problemSelector='' @ problemSelector
                           else '''');
          problemQuery =
            (if entitySelector \<noteq> ''''
             then (if problemQuery0 \<noteq> '''' then ''&'' else '''') @
                  ''entitySelector='' @ entitySelector
             else problemQuery0)
      in case ExecuteGetDynatraceProblems ph problemQuery startUnix endUnix of
           Inl err \<Rightarrow> Inl err
         | Inr totalCount \<Rightarrow>
            (let indicatorName = ''problems'';
                 sliResult = \<lparr>Metric = indicatorName, Value = Some (real_of_int totalCount),
                              Success = True, Message = ''''\<rparr>;
                 sliQuery = ''PV2;'' @ problemQuery;
                 sloString = ''sli='' @ indicatorName @ '';pass=<=0;key=true'';
                 (n, passSLOs, warningSLOs, weight, keySli) =
                    ParsePassAndWarningFromString ph sloString
             in Inr (sliResult, indicatorName, sliQuery,
                     \<lparr>SLI = indicatorName, Weight = weight, KeySLI = keySli,
                      Pass = passSLOs, Warning = warningSLOs\<rparr>)))"

definition ProcessOpenSecurityProblemTile ::
    "Handler \<Rightarrow> string \<Rightarrow> Time \<Rightarrow> Time \<Rightarrow> string + tile_output" where
  "ProcessOpenSecurityProblemTile ph securityProblemSelector startUnix endUnix =
     (let problemQuery = (if securityProblemSelector \<noteq> ''''
                          then ''securityProblemSelector='' @ securityProblemSelector else '''')
      in case ExecuteGetDynatraceSecurityProblems ph problemQuery startUnix endUnix of
           Inl err \<Rightarrow> Inl err
         | Inr totalCount \<Rightarrow>
            (let indicatorName = ''security_problems'';
                 sliResult = \<lparr>Metric = indicatorName, Value = Some (real_of_int totalCount),
                              Success = True, Message = ''''\<rparr>;
                 sliQuery = ''SECPV2;'' @ problemQuery;
                 sloString = ''sli='' @ indicatorName @ '';pass=<=0;key=true'';
                 (n, passSLOs, warningSLOs, weight, keySli) =
                    ParsePassAndWarningFromString ph sloString
             in Inr (sliResult, indicatorName, sliQuery,
                     \<lparr>SLI = indicatorName, Weight = weight, KeySLI = keySli,
                      Pass = passSLOs, Warning = warningSLOs\<rparr>)))"

text \<open>\<open>GetEntitySelectorFromEntityFilter\<close>; \<open>CHR 0x22\<close> is the double quote.\<close>

definition GetEntitySelectorFromEntityFilter ::
    "(string \<rightharpoonup> (string \<rightharpoonup> string list)) \<Rightarrow> string \<Rightarrow> string" where
  "GetEntitySelectorFromEntityFilter filtersPerEntityType entityType =
     (case filtersPerEntityType entityType of
        None \<Rightarrow> ''''
      | Some filters \<Rightarrow>
         (let f1 = (case filters ''SPECIFIC_ENTITIES'' of
                      None \<Rightarrow> ''''
                    | Some entityArray \<Rightarrow>
                        foldl (\<lambda>entityTileFilter entityId.
                                 entityTileFilter @ '','' @
                                 ''entityId('' @ [CHR 0x22] @ entityId @ [CHR 0x22] @ '')'')
                              '''' entityArray)
          in case filters ''AUTO_TAGS'' of
               None \<Rightarrow> f1
             | Some tagArray \<Rightarrow>
                 foldl (\<lambda>entityTileFilter tag.
                          entityTileFilter @ '','' @
                          ''tag('' @ [CHR 0x22] @ tag @ [CHR 0x22] @ '')'')
                       f1 tagArray))"

type_synonym query_parts = "string \<times> string \<times> string \<times> string \<times> string \<times> string"

text \<open>\<open>GenerateMetricQueryFromDataExplorer\<close>. The loop over the dimensions of the metric
  definition runs from the last index down to 0; a dimension is merged unless the
  query splits by its key.\<close>

fun explorer_merge_loop :: "string list \<Rightarrow> DimensionDefinition list \<Rightarrow> nat list \<Rightarrow> string \<Rightarrow> string" where
  "explorer_merge_loop splitBy defs [] mergeAggregator = mergeAggregator"
| "explorer_merge_loop splitBy defs (metricDimIx # rest) mergeAggregator =
     (let doMergeDimension =
            foldl (\<lambda>doMerge splitDimension.
                     if splitDimension = dim_Key (defs ! metricDimIx) then False else doMerge)
                  True splitBy
      in explorer_merge_loop splitBy defs rest
           (if doMergeDimension
            then mergeAggregator @ '':merge('' @ Itoa (int metricDimIx) @ '')''
            else mergeAggregator))"

text \<open>The filter of a data explorer query: the filter of the metric query, the filter
  of the indicator's query, the entity selector of the indicator's query and the entity
  filter of the metric query.\<close>

definition explorer_filter :: "DataExplorerQuery \<Rightarrow> string \<times> string \<times> string \<times> string" where
  "explorer_filter dataQuery =
     (case dq_FilterBy dataQuery of
        None \<Rightarrow> ('''', '''', '''', '''')
      | Some filterBy \<Rightarrow>
         (case fb_NestedFilters filterBy of
            [] \<Rightarrow> ('''', '''', '''', '''')
          | nested # _ \<Rightarrow>
             (case nf_Criteria nested of
                [criterion] \<Rightarrow>
                  if HasPrefix (nf_Filter nested) ''dt.entity.''
                  then ('''', '''', '',entityId(FILTERDIMENSIONVALUE)'',
                        ''&entitySelector=entityId('' @ cr_Value criterion @ '')'')
                  else ('':filter('' @ cr_Evaluator criterion @ ''('' @ nf_Filter nested @ '','' @
                          cr_Value criterion @ ''))'',
                        '':filter(eq('' @ nf_Filter nested @ '',FILTERDIMENSIONVALUE))'',
                        '''', '''')
              | _ \<Rightarrow> ('''', '''', '''', ''''))))"

definition GenerateMetricQueryFromDataExplorer ::
    "Handler \<Rightarrow> DataExplorerQuery \<Rightarrow> string \<Rightarrow> Time \<Rightarrow> Time \<Rightarrow> string + query_parts" where
  "GenerateMetricQueryFromDataExplorer ph dataQuery tileManagementZoneFilter startUnix endUnix =
     (case ExecuteMetricAPIDescribe ph (dq_Metric dataQuery) of
        Inl err \<Rightarrow> Inl err
      | Inr metricDefinition \<Rightarrow>
         (let defs = md_DimensionDefinitions metricDefinition;
              mergeAggregator =
                 explorer_merge_loop (dq_SplitBy dataQuery) defs (rev [0..<length defs]) '''';
              (filterAggregator, filterSLI0, entitySelectorSLIDefinition, entityFilter) =
                 explorer_filter dataQuery;
              filterSLIDefinitionAggregator =
                 (case dq_SplitBy dataQuery of
                    [splitDimension] \<Rightarrow>
                      filterSLI0 @ '':filter(eq('' @ splitDimension @ '',FILTERDIMENSIONVALUE))''
                  | _ \<Rightarrow> filterSLI0);
              metricQuery = ''metricSelector='' @ dq_Metric dataQuery @ mergeAggregator @
                 filterAggregator @ '':'' @ ToLower ph (md_DefaultAggregation metricDefinition) @
                 '':names'' @ entityFilter @ tileManagementZoneFilter
          in case BuildDynatraceMetricsQuery ph metricQuery startUnix endUnix of
               Inl err \<Rightarrow> Inl err
             | Inr (fullMetricQuery, metricID) \<Rightarrow>
                 Inr (metricID, md_Unit metricDefinition, metricQuery, fullMetricQuery,
                      entitySelectorSLIDefinition, filterSLIDefinitionAggregator)))"

text \<open>\<open>GenerateMetricQueryFromChart\<close>. The inner loop over the dimensions of the series
  updates \<open>doMergeDimension\<close> and the three texts, which live across the outer loop.\<close>

fun seriesDim_loop ::
    "string \<Rightarrow> SeriesDimension list \<Rightarrow> bool \<times> string \<times> string \<times> string \<Rightarrow>
     bool \<times> string \<times> string \<times> string" where
  "seriesDim_loop metricDimIxAsString [] st = st"
| "seriesDim_loop metricDimIxAsString (seriesDim # rest)
       (doMergeDimension, filterAggregator, filterSLI, entitySelectorSLI) =
     (if sd_ID seriesDim = metricDimIxAsString then
        (case sd_Values seriesDim of
           v # _ \<Rightarrow>
             seriesDim_loop metricDimIxAsString rest
               (False, '':filter(eq('' @ sd_Name seriesDim @ '','' @ v @ ''))'', filterSLI,
                entitySelectorSLI)
         | [] \<Rightarrow>
             if HasPrefix (sd_Name seriesDim) ''dt.entity.''
             then seriesDim_loop metricDimIxAsString rest
                    (False, filterAggregator, filterSLI, '',entityId(FILTERDIMENSIONVALUE)'')
             else seriesDim_loop metricDimIxAsString rest
                    (False, filterAggregator,
                     '':filter(eq('' @ sd_Name seriesDim @ '',FILTERDIMENSIONVALUE))'',
                     entitySelectorSLI))
      else seriesDim_loop metricDimIxAsString rest
             (doMergeDimension, filterAggregator, filterSLI, entitySelectorSLI))"

fun chart_merge_loop ::
    "SeriesDimension list \<Rightarrow> nat list \<Rightarrow> string \<times> string \<times> string \<times> string \<Rightarrow>
     string \<times> string \<times> string \<times> string" where
  "chart_merge_loop dims [] st = st"
| "chart_merge_loop dims (metricDimIx # rest)
       (mergeAggregator, filterAggregator, filterSLI, entitySelectorSLI) =
     (case seriesDim_loop (Itoa (int metricDimIx)) dims
             (True, filterAggregator, filterSLI, entitySelectorSLI) of
        (doMergeDimension, filterAggregator', filterSLI', entitySelectorSLI') \<Rightarrow>
          chart_merge_loop dims rest
            (if doMergeDimension
             then mergeAggregator @ '':merge('' @ Itoa (int metricDimIx) @ '')''
             else mergeAggregator,
             filterAggregator', filterSLI', entitySelectorSLI'))"

definition chart_aggregation :: "Handler \<Rightarrow> ChartSeries \<Rightarrow> string \<Rightarrow> string" where
  "chart_aggregation ph series defaultAggregation =
     (let a1 = (if cs_Aggregation series \<noteq> ''NONE'' then cs_Aggregation series
                else defaultAggregation);
          a2 = (if a1 = ''PERCENTILE''
                then a1 @ ''('' @ Sprintf_f_any ph (cs_Percentile series) @ '')'' else a1);
          a3 = (if a2 = ''OF_INTEREST_RATIO'' then ''avg'' else a2)
      in if a3 = ''OTHER_RATIO'' then ''avg'' else a3)"

definition GenerateMetricQueryFromChart ::
    "Handler \<Rightarrow> ChartSeries \<Rightarrow> string \<Rightarrow> (string \<rightharpoonup> (string \<rightharpoonup> string list)) \<Rightarrow>
     Time \<Rightarrow> Time \<Rightarrow> string + query_parts" where
  "GenerateMetricQueryFromChart ph series tileManagementZoneFilter filtersPerEntityType
       startUnix endUnix =
     (case ExecuteMetricAPIDescribe ph (cs_Metric series) of
        Inl err \<Rightarrow> Inl err
      | Inr metricDefinition \<Rightarrow>
         (case chart_merge_loop (cs_Dimensions series)
                 (rev [0..<length (md_DimensionDefinitions metricDefinition)])
                 ('''', '''', '''', '''') of
            (mergeAggregator, filterAggregator, filterSLIDefinitionAggregator,
             entitySelectorSLIDefinition) \<Rightarrow>
             (let metricAggregation =
                    chart_aggregation ph series (md_DefaultAggregation metricDefinition);
                  entityType = (case md_EntityType metricDefinition of
                                  [] \<Rightarrow> cs_EntityType series | e # _ \<Rightarrow> e);
                  entityTileFilter =
                    GetEntitySelectorFromEntityFilter filtersPerEntityType entityType;
                  metricQuery = ''metricSelector='' @ cs_Metric series @ mergeAggregator @
                    filterAggregator @ '':'' @ ToLower ph metricAggregation @
                    '':names&entitySelector=type('' @ entityType @ '')'' @ entityTileFilter @
                    tileManagementZoneFilter
              in case BuildDynatraceMetricsQuery ph metricQuery startUnix endUnix of
                   Inl err \<Rightarrow> Inl err
                 | Inr (fullMetricQuery, metricID) \<Rightarrow>
                     Inr (metricID, md_Unit metricDefinition, metricQuery, fullMetricQuery,
                          entitySelectorSLIDefinition, filterSLIDefinitionAggregator))))"

section \<open>The dashboard pass\<close>

text \<open>\<open>loadDynatraceDashboard\<close> returns the parsed dashboard (if any), the dashboard
  identifier it settled on, and the error. The answer of the dashboard endpoint is
  \<open>Inl\<close> for a transport error, a status other than 200 and an undecodable body.\<close>

definition loadDynatraceDashboard ::
    "Handler \<Rightarrow> BaseKeptnEvent \<Rightarrow> string \<Rightarrow> DynatraceDashboard option \<times> string \<times> string option" where
  "loadDynatraceDashboard ph keptnEvent dashboard0 =
     (let dashboard = (if dashboard0 = DynatraceConfigDashboardQUERY ph
                       then fst (findDynatraceDashboard ph keptnEvent) else dashboard0)
      in if dashboard = '''' then (None, dashboard, None)
         else if \<not> IsValidUUID dashboard
           then (None, dashboard, Some (''Dashboard ID '' @ dashboard @ '' not a valid UUID''))
         else (case GET_dashboard ph (ApiURL ph @ ''/api/config/v1/dashboards/'' @ dashboard) of
                 Inl err \<Rightarrow> (None, dashboard, Some err)
               | Inr dashboardJSON \<Rightarrow> (Some dashboardJSON, dashboard, None)))"

definition HasDashboardChanged :: "Handler \<Rightarrow> DynatraceDashboard \<Rightarrow> string \<Rightarrow> bool" where
  "HasDashboardChanged ph dashboardJSON existingDashboardContent =
     (let newDashboardContent = MarshalIndent ph dashboardJSON
      in if \<not> Contains newDashboardContent ''KQG.QueryBehavior=ParseOnChange'' then True
         else if newDashboardContent = existingDashboardContent then False
         else True)"

text \<open>The identifier of the management zone of a dashboard or tile filter, if it has
  one.\<close>

definition zone_of :: "DashboardFilter option \<Rightarrow> string option" where
  "zone_of f = (case f of
                  None \<Rightarrow> None
                | Some dashboardFilter \<Rightarrow> map_option mz_ID (df_ManagementZone dashboardFilter))"

definition problemSelector_of :: "string \<Rightarrow> DynatraceDashboard \<Rightarrow> Tile \<Rightarrow> string" where
  "problemSelector_of status dashboardJSON tile =
     (let p1 = (case zone_of (dd_DashboardFilter dashboardJSON) of
                  None \<Rightarrow> status
                | Some z \<Rightarrow> status @ '',managementZoneIds('' @ z @ '')'')
      in case zone_of (Some (t_TileFilter tile)) of
           None \<Rightarrow> p1
         | Some z \<Rightarrow> p1 @ '',managementZoneIds('' @ z @ '')'')"

text \<open>A tile processor's output joins the three outputs of the pass.\<close>

definition add_tile_output :: "tile_output \<Rightarrow> gen_state \<Rightarrow> gen_state" where
  "add_tile_output out st =
     (case (out, st) of
        ((sliResult, sliIndicator, sliQuery, sloDefinition),
         (sliResults, dashboardSLI, dashboardSLO)) \<Rightarrow>
          (sliResults @ [sliResult],
           dashboardSLI\<lparr>Indicators := (Indicators dashboardSLI)(sliIndicator \<mapsto> sliQuery)\<rparr>,
           dashboardSLO\<lparr>Objectives := Objectives dashboardSLO @ [sloDefinition]\<rparr>))"

fun slo_entities_loop :: "Handler \<Rightarrow> Time \<Rightarrow> Time \<Rightarrow> string list \<Rightarrow> gen_state \<Rightarrow> gen_state" where
  "slo_entities_loop ph startUnix endUnix [] st = st"
| "slo_entities_loop ph startUnix endUnix (sloEntity # rest) st =
     slo_entities_loop ph startUnix endUnix rest
       (case ProcessSLOTile ph sloEntity startUnix endUnix of
          Inl err \<Rightarrow> st
        | Inr out \<Rightarrow> add_tile_output out st)"

definition open_problems_step ::
    "Handler \<Rightarrow> DynatraceDashboard \<Rightarrow> Time \<Rightarrow> Time \<Rightarrow> Tile \<Rightarrow> gen_state \<Rightarrow> gen_state" where
  "open_problems_step ph dashboardJSON startUnix endUnix tile st =
     (case ProcessOpenProblemTile ph (problemSelector_of ''status(open)'' dashboardJSON tile) ''''
             startUnix endUnix of
        Inl err \<Rightarrow> st
      | Inr out \<Rightarrow> add_tile_output out st)"

definition open_security_problems_step ::
    "Handler \<Rightarrow> DynatraceDashboard \<Rightarrow> Time \<Rightarrow> Time \<Rightarrow> Tile \<Rightarrow> gen_state \<Rightarrow> gen_state" where
  "open_security_problems_step ph dashboardJSON startUnix endUnix tile st =
     (case ProcessOpenSecurityProblemTile ph (problemSelector_of ''status(OPEN)'' dashboardJSON tile)
             startUnix endUnix of
        Inl err \<Rightarrow> st
      | Inr out \<Rightarrow> add_tile_output out st)"

text \<open>What the title of a tile gives: the base indicator name, the pass and the warning
  criteria, the weight and the key flag.\<close>

type_synonym title_parts = "string \<times> SLOCriteria list \<times> SLOCriteria list \<times> int \<times> bool"

definition args_of :: "nat \<Rightarrow> title_parts \<Rightarrow> query_parts \<Rightarrow> gen_args" where
  "args_of n title parts =
     (case (title, parts) of
        ((baseName, passC, warningC, w, k),
         (mID, mUnit, mQuery, fullQuery, entitySelectorSLI, filterSLI)) \<Rightarrow>
          \<lparr>arg_noOfDimensionsInChart = n, arg_baseIndicatorName = baseName,
           arg_passSLOs = passC, arg_warningSLOs = warningC, arg_weight = w, arg_keySli = k,
           arg_metricID = mID, arg_metricUnit = mUnit, arg_metricQuery = mQuery,
           arg_fullMetricQuery = fullQuery, arg_filterSLIDefinitionAggregator = filterSLI,
           arg_entitySelectorSLIDefinition = entitySelectorSLI\<rparr>)"

text \<open>The results a call of \<open>GenerateSLISLOFromMetricsAPIQuery\<close> returns are appended
  to those of the pass.\<close>

definition generate_and_append :: "Handler \<Rightarrow> gen_args \<Rightarrow> gen_state \<Rightarrow> gen_state outcome" where
  "generate_and_append ph a st =
     (case st of (sliResults, dashboardSLI, dashboardSLO) \<Rightarrow>
        (case GenerateSLISLOFromMetricsAPIQuery ph a dashboardSLI dashboardSLO of
           Panic \<Rightarrow> Panic
         | Err e \<Rightarrow> Err e
         | Ok (newSliResults, dashboardSLI', dashboardSLO') \<Rightarrow>
             Ok (sliResults @ newSliResults, dashboardSLI', dashboardSLO')))"

fun explorer_queries_loop ::
    "Handler \<Rightarrow> title_parts \<Rightarrow> string \<Rightarrow> Time \<Rightarrow> Time \<Rightarrow> DataExplorerQuery list \<Rightarrow>
     gen_state \<Rightarrow> gen_state outcome" where
  "explorer_queries_loop ph title tileManagementZoneFilter startUnix endUnix [] st = Ok st"
| "explorer_queries_loop ph title tileManagementZoneFilter startUnix endUnix (dataQuery # rest) st =
     (case GenerateMetricQueryFromDataExplorer ph dataQuery tileManagementZoneFilter
             startUnix endUnix of
        Inl err \<Rightarrow>
          explorer_queries_loop ph title tileManagementZoneFilter startUnix endUnix rest st
      | Inr parts \<Rightarrow>
         (case generate_and_append ph
                 (args_of (length (dq_SplitBy dataQuery)) title parts) st of
            Panic \<Rightarrow> Panic
          | Err e \<Rightarrow> Err e
          | Ok st' \<Rightarrow>
              explorer_queries_loop ph title tileManagementZoneFilter startUnix endUnix rest st'))"

fun chart_series_loop ::
    "Handler \<Rightarrow> title_parts \<Rightarrow> string \<Rightarrow> (string \<rightharpoonup> (string \<rightharpoonup> string list)) \<Rightarrow>
     Time \<Rightarrow> Time \<Rightarrow> ChartSeries list \<Rightarrow> gen_state \<Rightarrow> gen_state outcome" where
  "chart_series_loop ph title tileManagementZoneFilter filters startUnix endUnix [] st = Ok st"
| "chart_series_loop ph title tileManagementZoneFilter filters startUnix endUnix (series # rest) st =
     (case GenerateMetricQueryFromChart ph series tileManagementZoneFilter filters
             startUnix endUnix of
        Inl err \<Rightarrow>
          chart_series_loop ph title tileManagementZoneFilter filters startUnix endUnix rest st
      | Inr parts \<Rightarrow>
         (case generate_and_append ph
                 (args_of (length (cs_Dimensions series)) title parts) st of
            Panic \<Rightarrow> Panic
          | Err e \<Rightarrow> Err e
          | Ok st' \<Rightarrow>
              chart_series_loop ph title tileManagementZoneFilter filters startUnix endUnix
                rest st'))"

text \<open>The rows of a USQL tile: every row read becomes an indicator of its own.\<close>

fun usql_tile_rows_loop ::
    "title_parts \<Rightarrow> Tile \<Rightarrow> jsonval list list \<Rightarrow> gen_state \<Rightarrow> gen_state outcome" where
  "usql_tile_rows_loop title tile [] st = Ok st"
| "usql_tile_rows_loop title tile (rowValue # rest) st =
     (case read_usql_row (t_Type tile) rowValue of
        RowPanic \<Rightarrow> Panic
      | RowSkipped \<Rightarrow> usql_tile_rows_loop title tile rest st
      | RowValue dimensionName dimensionValue \<Rightarrow>
         (case (title, st) of
            ((baseName, passC, warningC, w, k), (sliResults, dashboardSLI, dashboardSLO)) \<Rightarrow>
             (let indicatorName = (if dimensionName \<noteq> '''' then baseName @ ''_'' @ dimensionName
                                   else baseName)
              in usql_tile_rows_loop title tile rest
                   (sliResults @ [\<lparr>Metric = indicatorName, Value = Some dimensionValue,
                                    Success = True, Message = ''''\<rparr>],
                    dashboardSLI\<lparr>Indicators := (Indicators dashboardSLI)
                       (indicatorName \<mapsto> ''USQL;'' @ t_Type tile @ '';'' @ dimensionName @ '';'' @
                                          t_Query tile)\<rparr>,
                    dashboardSLO\<lparr>Objectives := Objectives dashboardSLO @
                       [\<lparr>SLI = indicatorName, Weight = w, KeySLI = k, Pass = passC,
                         Warning = warningC\<rparr>]\<rparr>))))"

definition usql_tile_step ::
    "Handler \<Rightarrow> title_parts \<Rightarrow> Time \<Rightarrow> Time \<Rightarrow> Tile \<Rightarrow> gen_state \<Rightarrow> gen_state outcome" where
  "usql_tile_step ph title startUnix endUnix tile st =
     (case BuildDynatraceUSQLQuery ph (t_Query tile) startUnix endUnix of
        Panic \<Rightarrow> Panic
      | Err e \<Rightarrow> Err e
      | Ok usql \<Rightarrow>
         (case ExecuteUSQLQuery ph usql of
            Inl err \<Rightarrow> Ok st
          | Inr usqlResult \<Rightarrow> usql_tile_rows_loop title tile (usql_Values usqlResult) st))"

text \<open>The body of the loop over the tiles. The tests on the tile type come in the order
  of the source; a \<open>continue\<close> ends the body with the state reached.\<close>

definition process_tile ::
    "Handler \<Rightarrow> DynatraceDashboard \<Rightarrow> Time \<Rightarrow> Time \<Rightarrow> Tile \<Rightarrow> gen_state \<Rightarrow> gen_state outcome" where
  "process_tile ph dashboardJSON startUnix endUnix tile st =
     (if t_TileType tile = ''HEADER'' then Ok st
      else if t_TileType tile = ''SYNTHETIC_TESTS'' then Ok st
      else if t_TileType tile = ''MARKDOWN'' then
        (case st of (sliResults, dashboardSLI, dashboardSLO) \<Rightarrow>
           Ok (sliResults, dashboardSLI,
               if Contains (t_Markdown tile) ''KQG.''
               then ParseMarkdownConfiguration ph (t_Markdown tile) dashboardSLO
               else dashboardSLO))
      else
        (let dashboardManagementZoneFilter =
               (case zone_of (dd_DashboardFilter dashboardJSON) of
                  None \<Rightarrow> '''' | Some z \<Rightarrow> '',mzId('' @ z @ '')'');
             tileManagementZoneFilter =
               (case zone_of (Some (t_TileFilter tile)) of
                  None \<Rightarrow> dashboardManagementZoneFilter | Some z \<Rightarrow> '',mzId('' @ z @ '')'')
         in if t_TileType tile = ''SLO''
            then Ok (slo_entities_loop ph startUnix endUnix (t_AssignedEntities tile) st)
            else
             (let st1 = (if t_TileType tile = ''OPEN_PROBLEMS''
                         then open_problems_step ph dashboardJSON startUnix endUnix tile st
                         else st);
                  st2 = (if t_TileType tile = ''OPEN_SECURITY_PROBLEMS'' \<or>
                            t_TileType tile = ''OPEN_PROBLEMS''
                         then open_security_problems_step ph dashboardJSON startUnix endUnix tile st1
                         else st1)
              in if t_TileType tile = ''DATA_EXPLORER'' then
                   (let title = ParsePassAndWarningFromString ph (t_Name tile)
                    in if fst title = '''' then Ok st2
                       else explorer_queries_loop ph title tileManagementZoneFilter
                              startUnix endUnix (t_Queries tile) st2)
                 else
                   (let tileTitle0 = t_FilterConfig_CustomName tile;
                        tileTitle1 = (if tileTitle0 = '''' then t_CustomName tile else tileTitle0);
                        tileTitle = (if tileTitle1 = '''' then t_Name tile else tileTitle1);
                        title = ParsePassAndWarningFromString ph tileTitle
                    in if fst title = '''' then Ok st2
                       else
                        (case (if t_TileType tile = ''CUSTOM_CHARTING''
                               then chart_series_loop ph title tileManagementZoneFilter
                                      (t_FiltersPerEntityType tile) startUnix endUnix
                                      (t_Series tile) st2
                               else Ok st2) of
                           Panic \<Rightarrow> Panic
                         | Err e \<Rightarrow> Err e
                         | Ok st3 \<Rightarrow>
                             if t_TileType tile = ''DTAQL''
                             then usql_tile_step ph title startUnix endUnix tile st3
                             else Ok st3)))))"

fun tiles_loop ::
    "Handler \<Rightarrow> DynatraceDashboard \<Rightarrow> Time \<Rightarrow> Time \<Rightarrow> Tile list \<Rightarrow> gen_state \<Rightarrow> gen_state outcome" where
  "tiles_loop ph dashboardJSON startUnix endUnix [] st = Ok st"
| "tiles_loop ph dashboardJSON startUnix endUnix (tile # rest) st =
     (case process_tile ph dashboardJSON startUnix endUnix tile st of
        Panic \<Rightarrow> Panic
      | Err e \<Rightarrow> Err e
      | Ok st' \<Rightarrow> tiles_loop ph dashboardJSON startUnix endUnix rest st')"

text \<open>What \<open>QueryDynatraceDashboardForSLIs\<close> returns: the link, the dashboard, the
  indicators, the objectives, the results and the error, each absent (\<open>None\<close>, the empty
  list) where the source returns \<open>nil\<close>.\<close>

record pass_result =
  dashboardLinkAsLabel :: string
  res_dashboard :: "DynatraceDashboard option"
  res_SLI :: "SLI_doc option"
  res_SLO :: "ServiceLevelObjectives option"
  res_sliResults :: "SLIResult list"
  res_error :: "string option"

definition initial_SLI :: SLI_doc where
  "initial_SLI = \<lparr>SpecVersion = ''0.1.4'', Indicators = Map.empty\<rparr>"

definition initial_SLO :: ServiceLevelObjectives where
  "initial_SLO =
     \<lparr>Objectives = [], TotalScore_Pass = ''90%'', TotalScore_Warning = ''75%'',
      Comparison_CompareWith = ''single_result'',
      Comparison_IncludeResultWithScore = ''pass'',
      Comparison_NumberOfComparisonResults = 1,
      Comparison_AggregateFunction = ''avg''\<rparr>"

definition dashboard_link :: "Handler \<Rightarrow> DynatraceDashboard \<Rightarrow> Time \<Rightarrow> Time \<Rightarrow> string" where
  "dashboard_link ph dashboardJSON startUnix endUnix =
     ApiURL ph @ ''#dashboard;id='' @ dd_ID dashboardJSON @ '';gtf=c_'' @
     TimestampToString ph startUnix @ ''_'' @ TimestampToString ph endUnix @
     (case zone_of (dd_DashboardFilter dashboardJSON) of
        None \<Rightarrow> '''' | Some z \<Rightarrow> '';gf='' @ z)"

text \<open>With a stored \<open>dashboard.json\<close> and no dashboard named, the dashboard is searched
  for.\<close>

definition dashboard_parameter :: "Handler \<Rightarrow> string \<Rightarrow> string" where
  "dashboard_parameter ph dashboard0 =
     (case GetKeptnResource ph of (existingDashboardContent, resourceErr) \<Rightarrow>
        if resourceErr = None \<and> existingDashboardContent \<noteq> '''' \<and> dashboard0 = ''''
        then DynatraceConfigDashboardQUERY ph else dashboard0)"

definition QueryDynatraceDashboardForSLIs ::
    "Handler \<Rightarrow> BaseKeptnEvent \<Rightarrow> string \<Rightarrow> Time \<Rightarrow> Time \<Rightarrow> pass_result outcome" where
  "QueryDynatraceDashboardForSLIs ph keptnEvent dashboard0 startUnix endUnix =
     (case GetKeptnResource ph of (existingDashboardContent, resourceErr) \<Rightarrow>
       (case loadDynatraceDashboard ph keptnEvent (dashboard_parameter ph dashboard0) of
             (loaded, dashboard, Some err) \<Rightarrow>
               Ok \<lparr>dashboardLinkAsLabel = '''', res_dashboard = None, res_SLI = None,
                   res_SLO = None, res_sliResults = [],
                   res_error = Some (''Error while processing dashboard config '' @ [CHR 0x27] @
                                     dashboard @ [CHR 0x27] @ '' - '' @ err)\<rparr>
           | (None, dashboard, None) \<Rightarrow>
               Ok \<lparr>dashboardLinkAsLabel = '''', res_dashboard = None, res_SLI = None,
                   res_SLO = None, res_sliResults = [], res_error = None\<rparr>
           | (Some dashboardJSON, dashboard, None) \<Rightarrow>
               if \<not> HasDashboardChanged ph dashboardJSON existingDashboardContent
               then Ok \<lparr>dashboardLinkAsLabel = dashboard_link ph dashboardJSON startUnix endUnix,
                        res_dashboard = None, res_SLI = None, res_SLO = None,
                        res_sliResults = [], res_error = None\<rparr>
               else
                (case tiles_loop ph dashboardJSON startUnix endUnix (dd_Tiles dashboardJSON)
                        ([], initial_SLI, initial_SLO) of
                   Panic \<Rightarrow> Panic
                 | Err e \<Rightarrow> Err e
                 | Ok (sliResults, dashboardSLI, dashboardSLO) \<Rightarrow>
                     Ok \<lparr>dashboardLinkAsLabel =
                           dashboard_link ph dashboardJSON startUnix endUnix,
                         res_dashboard = Some dashboardJSON, res_SLI = Some dashboardSLI,
                         res_SLO = Some dashboardSLO, res_sliResults = sliResults,
                         res_error = None\<rparr>)))"

section \<open>A concrete handler\<close>

text \<open>To run the functions on concrete inputs the parameters need values. The ones
  below agree with the Go library on the inputs used here: ASCII letters for the case
  mappings, URLs without escapes and without a fragment for the parsers.\<close>

definition ToLowerASCII :: "string \<Rightarrow> string" where
  "ToLowerASCII s =
     map (\<lambda>c. case map_of (zip ''ABCDEFGHIJKLMNOPQRSTUVWXYZ'' ''abcdefghijklmnopqrstuvwxyz'') c of
                 None \<Rightarrow> c | Some l \<Rightarrow> l) s"

definition ToUpperASCII :: "string \<Rightarrow> string" where
  "ToUpperASCII s =
     map (\<lambda>c. case map_of (zip ''abcdefghijklmnopqrstuvwxyz'' ''ABCDEFGHIJKLMNOPQRSTUVWXYZ'') c of
                 None \<Rightarrow> c | Some l \<Rightarrow> l) s"

definition simple_url_Parse :: "string \<Rightarrow> string + URL" where
  "simple_url_Parse s =
     (case Index s CHR ''?'' of
        None \<Rightarrow> Inr \<lparr>url_head = s, RawQuery = [], ForceQuery = False, url_fragment = []\<rparr>
      | Some i \<Rightarrow> Inr \<lparr>url_head = take i s, RawQuery = drop (Suc i) s, ForceQuery = False,
                        url_fragment = []\<rparr>)"

fun simple_pairs :: "string list \<Rightarrow> url_Values \<Rightarrow> url_Values" where
  "simple_pairs [] q = q"
| "simple_pairs (p # ps) q =
     (if p = [] then simple_pairs ps q
      else (case Index p CHR ''='' of
              None \<Rightarrow> simple_pairs ps (Add q p [])
            | Some i \<Rightarrow> simple_pairs ps (Add q (take i p) (drop (Suc i) p))))"

definition simple_ParseQuery :: "string \<Rightarrow> url_Values \<times> string option" where
  "simple_ParseQuery s = (simple_pairs (Split s CHR ''&'') [], None)"

definition simple_CleanIndicatorName :: "string \<Rightarrow> string" where
  "simple_CleanIndicatorName s = map (\<lambda>c. if c \<in> set '' /%'' then CHR ''_'' else c) s"

fun simple_sli_name :: "string list \<Rightarrow> string" where
  "simple_sli_name [] = []"
| "simple_sli_name (p # ps) = (if prefix ''sli='' p then drop 4 p else simple_sli_name ps)"

definition simple_ParsePassAndWarning ::
    "string \<Rightarrow> string \<times> SLOCriteria list \<times> SLOCriteria list \<times> int \<times> bool" where
  "simple_ParsePassAndWarning s = (simple_sli_name (Split s CHR '';''), [], [], 1, False)"

definition simple_Marshal :: "DynatraceDashboard \<Rightarrow> string" where
  "simple_Marshal d = dd_ID d @ concat (map t_Markdown (dd_Tiles d))"

definition ph0 :: Handler where
  "ph0 = \<lparr>ApiURL = ''https://dt'',
          KeptnEvent = \<lparr>Project = ''sockshop'', Stage = ''staging'', Service = ''carts''\<rparr>,
          CustomQueries = Map.empty,
          CustomFilters = [],
          ToLower = ToLowerASCII,
          ToUpper = ToUpperASCII,
          url_Parse = simple_url_Parse,
          url_ParseQuery = simple_ParseQuery,
          Sprintf_f = (\<lambda>r. ''0.000000''),
          Sprintf_f_any = (\<lambda>j. ''0.000000''),
          MarshalIndent = simple_Marshal,
          Marshal = MetricID,
          TimestampToString = (\<lambda>t. if t = 0 then ''0'' else ''60000''),
          CleanIndicatorName = simple_CleanIndicatorName,
          ReplaceKeptnPlaceholders = (\<lambda>s ev. s),
          ParsePassAndWarningFromString = simple_ParsePassAndWarning,
          ParseMarkdownConfiguration = (\<lambda>s slo. slo),
          GetKeptnResource = ('''', None),
          DynatraceConfigDashboardQUERY = ''query'',
          GET_dashboards = Inl None,
          GET_dashboard = (\<lambda>u. Inl ''no backend''),
          GET_slo = (\<lambda>u. Inl ''no backend''),
          GET_problems = (\<lambda>u. Inl ''no backend''),
          GET_securityProblems = (\<lambda>u. Inl ''no backend''),
          GET_metric = (\<lambda>u. Inl ''no backend''),
          GET_metrics_query = (\<lambda>u. Inl ''no backend''),
          GET_usql = (\<lambda>u. Inl ''no backend'')\<rparr>"

text \<open>Three dashboards: the first lacks the stage, the other two name project
  \<open>sockshop\<close>, service \<open>carts\<close> and stage \<open>staging\<close>.\<close>

definition dashC :: DashboardEntry where
  "dashC = \<lparr>de_ID = ''C'', de_Name = ''KQG;project=sockshop;service=carts'', de_Owner = ''''\<rparr>"

definition dashA :: DashboardEntry where
  "dashA = \<lparr>de_ID = ''A'', de_Name = ''KQG;project=sockshop;service=carts;stage=staging'',
             de_Owner = ''''\<rparr>"

definition dashB :: DashboardEntry where
  "dashB = \<lparr>de_ID = ''B'', de_Name = ''kqg;Stage=staging;x=y;SERVICE=carts;project=SockShop'',
             de_Owner = ''''\<rparr>"

definition ph_dashboards :: Handler where
  "ph_dashboards = ph0\<lparr>GET_dashboards := Inr [dashC, dashA, dashB]\<rparr>"

definition ev_shop :: BaseKeptnEvent where
  "ev_shop = \<lparr>Project = ''sockshop'', Stage = ''staging'', Service = ''carts''\<rparr>"

definition ev_other :: BaseKeptnEvent where
  "ev_other = \<lparr>Project = ''other'', Stage = ''staging'', Service = ''carts''\<rparr>"

text \<open>A host CPU query of a chart split by host, its built URL, and a backend that
  answers that URL with one result holding the given data rows.\<close>

definition cpu_query :: string where
  "cpu_query = ''metricSelector=builtin:host.cpu.usage:merge(0):avg:names&entitySelector=type(HOST)''"

definition cpu_url :: string where
  "cpu_url = ''https://dt/api/v2/metrics/query/?entitySelector=type%28HOST%29&from=0&metricSelector=builtin%3Ahost.cpu.usage%3Amerge%280%29%3Aavg%3Anames&resolution=Inf&to=60000''"

definition cpu_metricID :: string where
  "cpu_metricID = ''builtin:host.cpu.usage:merge(0):avg:names''"

definition cpu_backend ::
    "MetricQueryResultNumbers list \<Rightarrow> string \<Rightarrow> string + DynatraceMetricsQueryResult" where
  "cpu_backend rows u =
     (if u = cpu_url then Inr \<lparr>Result = [\<lparr>MetricID = cpu_metricID, Data = rows\<rparr>]\<rparr>
      else Inl ''unknown query'')"

definition ph_cpu :: "MetricQueryResultNumbers list \<Rightarrow> Handler" where
  "ph_cpu rows =
     ph0\<lparr>CustomQueries := [''cpu'' \<mapsto> ''MV2;Percent;'' @ cpu_query],
         GET_metrics_query := cpu_backend rows\<rparr>"

definition args_cpu :: gen_args where
  "args_cpu =
     \<lparr>arg_noOfDimensionsInChart = 1, arg_baseIndicatorName = ''cpu'',
      arg_passSLOs = [[''<=80'']], arg_warningSLOs = [], arg_weight = 2, arg_keySli = True,
      arg_metricID = cpu_metricID, arg_metricUnit = ''Percent'', arg_metricQuery = cpu_query,
      arg_fullMetricQuery = cpu_url, arg_filterSLIDefinitionAggregator = '''',
      arg_entitySelectorSLIDefinition = '',entityId(FILTERDIMENSIONVALUE)''\<rparr>"



definition rows_three_hosts :: "MetricQueryResultNumbers list" where
  "rows_three_hosts =
     [\<lparr>Dimensions = [''host a'', ''HOST-1''], Values = [10]\<rparr>,
      \<lparr>Dimensions = [''host-b'', ''HOST-2''], Values = [20]\<rparr>,
      \<lparr>Dimensions = [''host-c'', ''HOST-3''], Values = [30]\<rparr>]"

text \<open>Projections of what the synthesis returns.\<close>

definition results_of :: "gen_state outcome \<Rightarrow> SLIResult list" where
  "results_of out = (case out of Ok (sliResults, dashboardSLI, dashboardSLO) \<Rightarrow> sliResults | _ \<Rightarrow> [])"

definition indicators_of :: "gen_state outcome \<Rightarrow> string \<rightharpoonup> string" where
  "indicators_of out =
     (case out of Ok (sliResults, dashboardSLI, dashboardSLO) \<Rightarrow> Indicators dashboardSLI
      | _ \<Rightarrow> Map.empty)"

definition objectives_of :: "gen_state outcome \<Rightarrow> SLO list" where
  "objectives_of out =
     (case out of Ok (sliResults, dashboardSLI, dashboardSLO) \<Rightarrow> Objectives dashboardSLO
      | _ \<Rightarrow> [])"

text \<open>A dashboard with an open-problems tile, and a backend that counts three open
  problems and one open security problem.\<close>

definition no_filter :: DashboardFilter where
  "no_filter = \<lparr>df_Timeframe = '''', df_ManagementZone = None\<rparr>"

definition empty_tile :: Tile where
  "empty_tile =
     \<lparr>t_Name = '''', t_TileType = '''', t_Query = '''', t_Type = '''', t_CustomName = '''',
      t_Markdown = '''', t_TileFilter = no_filter, t_Queries = [], t_AssignedEntities = [],
      t_FilterConfig_CustomName = '''', t_Series = [], t_FiltersPerEntityType = Map.empty\<rparr>"

definition tile_problems :: Tile where
  "tile_problems = empty_tile\<lparr>t_Name := ''Problems'', t_TileType := ''OPEN_PROBLEMS''\<rparr>"

definition ph_problems :: Handler where
  "ph_problems = ph0\<lparr>GET_problems := (\<lambda>u. Inr 3), GET_securityProblems := (\<lambda>u. Inr 1)\<rparr>"


definition cpu_dataQuery :: DataExplorerQuery where
  "cpu_dataQuery =
     \<lparr>dq_Metric = ''builtin:host.cpu.usage'', dq_SplitBy = [''dt.entity.host''],
      dq_FilterBy = None\<rparr>"

definition tile_cpu :: Tile where
  "tile_cpu = empty_tile\<lparr>t_Name := ''CPU;sli=cpu'', t_TileType := ''DATA_EXPLORER'',
                          t_Queries := [cpu_dataQuery]\<rparr>"


definition dashboard_two_tiles :: DynatraceDashboard where
  "dashboard_two_tiles =
     \<lparr>dd_ID = ''12345678-1234-4234-8234-123456789012'', dd_DashboardFilter = None,
      dd_Tiles = [tile_cpu, tile_problems]\<rparr>"

text \<open>A dashboard that asks to be parsed on change only, stored as it is.\<close>

definition dashboard_marked :: DynatraceDashboard where
  "dashboard_marked =
     \<lparr>dd_ID = ''12345678-1234-4234-8234-123456789012'', dd_DashboardFilter = None,
      dd_Tiles = [empty_tile\<lparr>t_TileType := ''MARKDOWN'',
                               t_Markdown := ''KQG.QueryBehavior=ParseOnChange''\<rparr>,
                  tile_problems]\<rparr>"

definition ph_unchanged :: Handler where
  "ph_unchanged =
     ph_problems\<lparr>GetKeptnResource := (simple_Marshal dashboard_marked, None),
                 GET_dashboard := (\<lambda>u. Inr dashboard_marked)\<rparr>"

text \<open>Two of the three host rows, and what the title and the query of \<open>tile_cpu\<close>
  give.\<close>

definition rows_two_hosts :: "MetricQueryResultNumbers list" where
  "rows_two_hosts =
     [\<lparr>Dimensions = [''host a'', ''HOST-1''], Values = [10]\<rparr>,
      \<lparr>Dimensions = [''host-b'', ''HOST-2''], Values = [20]\<rparr>]"




section \<open>Properties\<close>

subsection \<open>Unit scaling\<close>

lemma Contains_rt_self: "Contains ''builtin:service.response.time'' ''builtin:service.response.time''"
  by (simp add: Contains_def)

text \<open>
  C2, as stated, fails: the metric identifier takes part in the decision. A value whose
  unit is neither \<open>MicroSecond\<close> nor \<open>Byte\<close> is still divided by 1000 when the metric
  identifier contains \<open>builtin:service.response.time\<close>.
\<close>

theorem scaleData_other_unit_counterexample:
  "scaleData ''builtin:service.response.time'' ''Count'' 5 \<noteq> 5"
  using Contains_rt_self by (simp add: scaleData_def)

text \<open>
  C2 (amended): with unit \<open>MicroSecond\<close> the raw value 1,000,000 scales to 1,000 for every
  metric identifier; for every metric identifier that does not contain
  \<open>builtin:service.response.time\<close>, the raw value 2048 with unit \<open>Byte\<close> scales to 2 and
  a value with any unit other than \<open>MicroSecond\<close> and \<open>Byte\<close> is returned unscaled.
\<close>

theorem scaleData_units:
  "scaleData metricID ''MicroSecond'' 1000000 = 1000 \<and>
   (\<not> Contains metricID ''builtin:service.response.time'' \<longrightarrow>
      scaleData metricID ''Byte'' 2048 = 2 \<and>
      (\<forall>unit v. unit \<noteq> ''MicroSecond'' \<and> unit \<noteq> ''Byte'' \<longrightarrow> scaleData metricID unit v = v))"
  by (simp add: scaleData_def)

theorem scaleData_units_witness:
  "scaleData ''builtin:host.cpu.usage'' ''MicroSecond'' 1000000 = 1000 \<and>
   \<not> Contains ''builtin:host.cpu.usage'' ''builtin:service.response.time'' \<and>
   scaleData ''builtin:host.cpu.usage'' ''Byte'' 2048 = 2 \<and>
   scaleData ''builtin:host.cpu.usage'' ''Percent'' 42 = 42"
proof -
  have n: "\<not> Contains ''builtin:host.cpu.usage'' ''builtin:service.response.time''"
    by (simp add: Contains_def sublist_Cons_right)
  from scaleData_units [of "''builtin:host.cpu.usage''"] n show ?thesis
    by simp
qed

subsection \<open>Finding the dashboard\<close>

lemma foundValue_loop_eq:
  "foundValue_loop ph fv xs acc = (acc \<or> fv \<in> ToLower ph ` set xs)"
  by (induction xs arbitrary: acc) auto

lemma dashboardMatch_loop_eq:
  "dashboardMatch_loop ph fvs ns acc = (acc \<and> (\<forall>fv\<in>set fvs. fv \<in> ToLower ph ` set ns))"
  by (induction fvs arbitrary: acc) (auto simp: foundValue_loop_eq)

lemma dashboard_test_eq:
  "(HasPrefix (ToLower ph name) ''kqg;'' \<and>
    dashboardMatch_loop ph (findValues ph ev) (Split name CHR '';'') True) =
   names_dashboard_of ph ev name"
  by (simp add: dashboardMatch_loop_eq findValues_def names_dashboard_of_def has_token_def)

lemma dashboards_loop_first:
  "\<forall>d'\<in>set pre. \<not> names_dashboard_of ph ev (de_Name d') \<Longrightarrow>
   names_dashboard_of ph ev (de_Name d) \<Longrightarrow>
   dashboards_loop ph (findValues ph ev) (pre @ d # post) = de_ID d"
  by (induction pre) (simp_all add: dashboard_test_eq)

lemma dashboards_loop_none:
  "\<forall>d\<in>set ds. \<not> names_dashboard_of ph ev (de_Name d) \<Longrightarrow>
   dashboards_loop ph (findValues ph ev) ds = ''''"
  by (induction ds) (simp_all add: dashboard_test_eq)

text \<open>
  C9, as stated, fails when more than one dashboard carries the three tokens: the search
  returns at the first one. Below, \<open>dashB\<close> carries the prefix and the three tokens (in
  another order, in other letter cases, beside a fourth token) and is in the list, yet
  the identifier returned is not its own.
\<close>

theorem findDynatraceDashboard_counterexample:
  "names_dashboard_of ph_dashboards ev_shop (de_Name dashB) \<and>
   dashB \<in> set [dashC, dashA, dashB] \<and>
   GET_dashboards ph_dashboards = Inr [dashC, dashA, dashB] \<and>
   fst (findDynatraceDashboard ph_dashboards ev_shop) \<noteq> de_ID dashB"
  by code_simp

text \<open>
  C9 (amended): for every list of dashboards, if some dashboard's name carries the KQG
  prefix and contains \<open>project=P\<close>, \<open>service=S\<close> and \<open>stage=St\<close> as \<open>;\<close>-separated
  tokens, matched case-insensitively, in any order and possibly alongside other tokens,
  then \<open>findDynatraceDashboard\<close> returns the identifier of the first such dashboard of the
  list; if any one of the three tokens is absent from every dashboard name, it returns
  the empty identifier.
\<close>

theorem findDynatraceDashboard_first_match:
  assumes "GET_dashboards ph = Inr dashboards"
  shows "(dashboards = pre @ d # post \<and>
          (\<forall>d'\<in>set pre. \<not> names_dashboard_of ph ev (de_Name d')) \<and>
          names_dashboard_of ph ev (de_Name d)
            \<longrightarrow> findDynatraceDashboard ph ev = (de_ID d, None)) \<and>
         ((\<exists>kv\<in>{''project='' @ Project ev, ''service='' @ Service ev, ''stage='' @ Stage ev}.
             \<forall>d'\<in>set dashboards. \<not> has_token ph (de_Name d') kv)
            \<longrightarrow> findDynatraceDashboard ph ev = ('''', None))"
proof (intro conjI impI)
  assume "dashboards = pre @ d # post \<and>
          (\<forall>d'\<in>set pre. \<not> names_dashboard_of ph ev (de_Name d')) \<and>
          names_dashboard_of ph ev (de_Name d)"
  then show "findDynatraceDashboard ph ev = (de_ID d, None)"
    using assms by (simp add: findDynatraceDashboard_def dashboards_loop_first)
next
  assume "\<exists>kv\<in>{''project='' @ Project ev, ''service='' @ Service ev, ''stage='' @ Stage ev}.
             \<forall>d'\<in>set dashboards. \<not> has_token ph (de_Name d') kv"
  then have "\<forall>d'\<in>set dashboards. \<not> names_dashboard_of ph ev (de_Name d')"
    by (auto simp: names_dashboard_of_def)
  then show "findDynatraceDashboard ph ev = ('''', None)"
    using assms by (simp add: findDynatraceDashboard_def dashboards_loop_none)
qed

theorem findDynatraceDashboard_first_match_witness:
  "GET_dashboards ph_dashboards = Inr ([dashC] @ dashA # [dashB]) \<and>
   \<not> names_dashboard_of ph_dashboards ev_shop (de_Name dashC) \<and>
   names_dashboard_of ph_dashboards ev_shop (de_Name dashA) \<and>
   findDynatraceDashboard ph_dashboards ev_shop = (''A'', None) \<and>
   \<not> has_token ph_dashboards (de_Name dashC) (''project='' @ Project ev_other) \<and>
   \<not> has_token ph_dashboards (de_Name dashA) (''project='' @ Project ev_other) \<and>
   \<not> has_token ph_dashboards (de_Name dashB) (''project='' @ Project ev_other) \<and>
   findDynatraceDashboard ph_dashboards ev_other = ('''', None)"
proof -
  have g: "GET_dashboards ph_dashboards = Inr ([dashC] @ dashA # [dashB])"
    by code_simp
  have c: "\<not> names_dashboard_of ph_dashboards ev_shop (de_Name dashC)"
    by code_simp
  have a: "names_dashboard_of ph_dashboards ev_shop (de_Name dashA)"
    by code_simp
  have o: "\<not> has_token ph_dashboards (de_Name dashC) (''project='' @ Project ev_other)"
      "\<not> has_token ph_dashboards (de_Name dashA) (''project='' @ Project ev_other)"
      "\<not> has_token ph_dashboards (de_Name dashB) (''project='' @ Project ev_other)"
    by code_simp+
  have i: "de_ID dashA = ''A''"
    by (simp add: dashA_def)
  have "findDynatraceDashboard ph_dashboards ev_shop = (de_ID dashA, None)"
    using findDynatraceDashboard_first_match [OF g, of "[dashC]" dashA "[dashB]" ev_shop] c a
    by simp
  moreover have "findDynatraceDashboard ph_dashboards ev_other = ('''', None)"
    using findDynatraceDashboard_first_match [OF g, of _ _ _ ev_other] o
    by simp
  ultimately show ?thesis
    using g c a o i by simp
qed

subsection \<open>The built metrics query\<close>

lemma values_of_Add:
  "values_of (Add q k v) k' = (if k' = k then values_of q k @ [v] else values_of q k')"
  by (induction q) (auto simp: values_of_def)

lemma values_of_keys: "v \<in> set (values_of q k) \<Longrightarrow> k \<in> fst ` set q"
  by (cases "map_of q k") (auto simp: values_of_def dest: map_of_SomeD intro: rev_image_eqI)

lemma Encode_pieces_mem:
  "v \<in> set (values_of q k) \<Longrightarrow> QueryEscape k @ ''='' @ QueryEscape v \<in> set (Encode_pieces q)"
  using values_of_keys [of v q k] by (auto simp: Encode_pieces_def)

lemma Join_nonempty: "p \<in> set ps \<Longrightarrow> p \<noteq> [] \<Longrightarrow> Join ps sep \<noteq> []"
  by (induction ps sep rule: Join.induct) auto

lemma QueryEscape_resolution: "QueryEscape ''resolution'' = ''resolution''"
  and QueryEscape_Inf: "QueryEscape ''Inf'' = ''Inf''"
  and QueryEscape_from: "QueryEscape ''from'' = ''from''"
  and QueryEscape_to: "QueryEscape ''to'' = ''to''"
  and QueryEscape_entitySelector: "QueryEscape ''entitySelector'' = ''entitySelector''"
  by (simp_all add: QueryEscape_def escape_byte_def shouldEscape_def)

lemma build_legacy_scope:
  "BuildDynatraceMetricsQuery ph0 ''builtin:service.response.time:merge(0):avg?scope=tag(keptn)'' 0 60 =
   Inr (''https://dt/api/v2/metrics/query/?entitySelector=tag%28keptn%29%2Ctype%28SERVICE%29&from=0&metricSelector=builtin%3Aservice.response.time%3Amerge%280%29%3Aavg&resolution=Inf&scope=tag%28keptn%29&to=60000'',
        ''builtin:service.response.time:merge(0):avg'')"
  by code_simp

text \<open>
  C10: for every query fragment accepted by \<open>BuildDynatraceMetricsQuery\<close>, the returned
  URL is what precedes the query, a \<open>?\<close>, and \<open>&\<close>-separated pieces (followed by the
  fragment part, if any); among the pieces are \<open>resolution=Inf\<close> and \<open>from=\<close> and
  \<open>to=\<close> with the (escaped) window bounds; and when the parsed fragment has a non-empty
  \<open>scope\<close> parameter, one piece is \<open>entitySelector=\<close> with the (escaped) scope value, to
  which \<open>,type(SERVICE)\<close> is appended unless the scope value contains \<open>type(SERVICE)\<close>.
\<close>

theorem BuildDynatraceMetricsQuery_parameters:
  assumes "BuildDynatraceMetricsQuery ph metricquery startUnix endUnix = Inr (finalURL, metricID)"
  shows "\<exists>u q pieces.
           url_Parse ph (fst (metricsTargetURL ph metricquery)) = Inr u \<and>
           url_ParseQuery ph (RawQuery u) = (q, None) \<and>
           finalURL = url_head u @ ''?'' @ Join pieces ''&'' @ url_fragment u \<and>
           ''resolution=Inf'' \<in> set pieces \<and>
           ''from='' @ QueryEscape (TimestampToString ph startUnix) \<in> set pieces \<and>
           ''to='' @ QueryEscape (TimestampToString ph endUnix) \<in> set pieces \<and>
           (Get q ''scope'' \<noteq> '''' \<longrightarrow>
              ''entitySelector='' @ QueryEscape (scopeToEntitySelector (Get q ''scope''))
                \<in> set pieces)"
proof -
  obtain targetURL metricSelector
    where t: "metricsTargetURL ph metricquery = (targetURL, metricSelector)"
    by (cases "metricsTargetURL ph metricquery")
  from assms t obtain u where u: "url_Parse ph targetURL = Inr u"
    by (cases "url_Parse ph targetURL") (auto simp: BuildDynatraceMetricsQuery_def)
  from assms t u obtain q0 where q0: "url_ParseQuery ph (RawQuery u) = (q0, None)"
    by (cases "url_ParseQuery ph (RawQuery u)")
      (auto simp: BuildDynatraceMetricsQuery_def split: option.splits)
  define q1 where "q1 = Add (Add (Add q0 ''resolution'' ''Inf'')
                                 ''from'' (TimestampToString ph startUnix))
                                 ''to'' (TimestampToString ph endUnix)"
  define q2 where "q2 = (if Get q1 ''scope'' \<noteq> ''''
                           then Add q1 ''entitySelector'' (scopeToEntitySelector (Get q1 ''scope''))
                           else q1)"
  have url: "finalURL = URL_String (u\<lparr>RawQuery := Encode q2\<rparr>)"
    using assms t u q0
    by (auto simp add: BuildDynatraceMetricsQuery_def Let_def q1_def q2_def)
  have scope: "Get q1 ''scope'' = Get q0 ''scope''"
    by (simp add: q1_def Get_def values_of_Add)
  have r1: "''Inf'' \<in> set (values_of q1 ''resolution'')"
    and f1: "TimestampToString ph startUnix \<in> set (values_of q1 ''from'')"
    and t1: "TimestampToString ph endUnix \<in> set (values_of q1 ''to'')"
    by (simp_all add: q1_def values_of_Add)
  have mono: "set (values_of q1 k) \<subseteq> set (values_of q2 k)" for k
    by (auto simp: q2_def values_of_Add)
  have r2: "''resolution=Inf'' \<in> set (Encode_pieces q2)"
    using Encode_pieces_mem [of "''Inf''" q2 "''resolution''"] r1 mono
    by (auto simp: QueryEscape_resolution QueryEscape_Inf)
  have f2: "''from='' @ QueryEscape (TimestampToString ph startUnix) \<in> set (Encode_pieces q2)"
    using Encode_pieces_mem [of "TimestampToString ph startUnix" q2 "''from''"] f1 mono
    by (auto simp: QueryEscape_from)
  have t2: "''to='' @ QueryEscape (TimestampToString ph endUnix) \<in> set (Encode_pieces q2)"
    using Encode_pieces_mem [of "TimestampToString ph endUnix" q2 "''to''"] t1 mono
    by (auto simp: QueryEscape_to)
  have e2: "''entitySelector='' @ QueryEscape (scopeToEntitySelector (Get q0 ''scope''))
              \<in> set (Encode_pieces q2)" if "Get q0 ''scope'' \<noteq> ''''"
  proof -
    have "scopeToEntitySelector (Get q0 ''scope'') \<in> set (values_of q2 ''entitySelector'')"
      using that scope by (simp add: q2_def values_of_Add)
    from Encode_pieces_mem [OF this] show ?thesis
      by (simp add: QueryEscape_entitySelector)
  qed
  have "Encode q2 \<noteq> []"
    unfolding Encode_def using r2 by (rule Join_nonempty) simp
  then have "finalURL = url_head u @ ''?'' @ Join (Encode_pieces q2) ''&'' @ url_fragment u"
    using url by (simp add: URL_String_def Encode_def)
  with t u q0 r2 f2 t2 e2 show ?thesis
    by (intro exI [of _ u] exI [of _ q0] exI [of _ "Encode_pieces q2"]) simp
qed

theorem BuildDynatraceMetricsQuery_parameters_witness:
  "BuildDynatraceMetricsQuery ph0 ''builtin:service.response.time:merge(0):avg?scope=tag(keptn)'' 0 60 =
     Inr (''https://dt/api/v2/metrics/query/?entitySelector=tag%28keptn%29%2Ctype%28SERVICE%29&from=0&metricSelector=builtin%3Aservice.response.time%3Amerge%280%29%3Aavg&resolution=Inf&scope=tag%28keptn%29&to=60000'',
          ''builtin:service.response.time:merge(0):avg'') \<and>
   (\<exists>pieces.
      ''https://dt/api/v2/metrics/query/?entitySelector=tag%28keptn%29%2Ctype%28SERVICE%29&from=0&metricSelector=builtin%3Aservice.response.time%3Amerge%280%29%3Aavg&resolution=Inf&scope=tag%28keptn%29&to=60000''
        = ''https://dt/api/v2/metrics/query/'' @ ''?'' @ Join pieces ''&'' \<and>
      ''resolution=Inf'' \<in> set pieces \<and> ''from=0'' \<in> set pieces \<and>
      ''to=60000'' \<in> set pieces \<and>
      ''entitySelector=tag%28keptn%29%2Ctype%28SERVICE%29'' \<in> set pieces)"
proof -
  from BuildDynatraceMetricsQuery_parameters [OF build_legacy_scope]
  obtain u q pieces where
    u: "url_Parse ph0 (fst (metricsTargetURL ph0
          ''builtin:service.response.time:merge(0):avg?scope=tag(keptn)'')) = Inr u"
    and q: "url_ParseQuery ph0 (RawQuery u) = (q, None)"
    and p: "''https://dt/api/v2/metrics/query/?entitySelector=tag%28keptn%29%2Ctype%28SERVICE%29&from=0&metricSelector=builtin%3Aservice.response.time%3Amerge%280%29%3Aavg&resolution=Inf&scope=tag%28keptn%29&to=60000''
          = url_head u @ ''?'' @ Join pieces ''&'' @ url_fragment u"
      "''resolution=Inf'' \<in> set pieces"
      "''from='' @ QueryEscape (TimestampToString ph0 0) \<in> set pieces"
      "''to='' @ QueryEscape (TimestampToString ph0 60) \<in> set pieces"
      "Get q ''scope'' \<noteq> '''' \<longrightarrow>
         ''entitySelector='' @ QueryEscape (scopeToEntitySelector (Get q ''scope'')) \<in> set pieces"
    by blast
  have "url_Parse ph0 (fst (metricsTargetURL ph0
          ''builtin:service.response.time:merge(0):avg?scope=tag(keptn)'')) =
        Inr \<lparr>url_head = ''https://dt/api/v2/metrics/query/'',
      RawQuery = ''metricSelector=builtin:service.response.time:merge(0):avg&scope=tag(keptn)'',
      ForceQuery = False, url_fragment = []\<rparr>"
    by code_simp
  with u have u': "u = \<lparr>url_head = ''https://dt/api/v2/metrics/query/'',
      RawQuery = ''metricSelector=builtin:service.response.time:merge(0):avg&scope=tag(keptn)'',
      ForceQuery = False, url_fragment = []\<rparr>"
    by simp
  have "url_ParseQuery ph0
          ''metricSelector=builtin:service.response.time:merge(0):avg&scope=tag(keptn)'' =
        ([(''metricSelector'', [''builtin:service.response.time:merge(0):avg'']),
          (''scope'', [''tag(keptn)''])], None)"
    by code_simp
  with q have q': "q = [(''metricSelector'', [''builtin:service.response.time:merge(0):avg'']),
                        (''scope'', [''tag(keptn)''])]"
    unfolding u' by simp
  have s: "Get q ''scope'' \<noteq> ''''"
    and e: "''entitySelector='' @ QueryEscape (scopeToEntitySelector (Get q ''scope'')) =
            ''entitySelector=tag%28keptn%29%2Ctype%28SERVICE%29''"
    unfolding q' by code_simp+
  have f: "''from='' @ QueryEscape (TimestampToString ph0 0) = ''from=0''"
    and t: "''to='' @ QueryEscape (TimestampToString ph0 60) = ''to=60000''"
    by code_simp+
  have h: "url_head u @ ''?'' @ Join pieces ''&'' @ url_fragment u =
           ''https://dt/api/v2/metrics/query/'' @ ''?'' @ Join pieces ''&''"
    unfolding u' by simp
  from p s show ?thesis
    unfolding e f t h using build_legacy_scope
    by (intro conjI exI [of _ pieces]) simp_all
qed

subsection \<open>Resolving one indicator\<close>

lemma metrics_results_loop_first:
  "\<forall>r'\<in>set pre. \<not> isMatchingMetricID (MetricID r') metricID \<Longrightarrow>
   isMatchingMetricID (MetricID r) metricID \<Longrightarrow>
   metrics_results_loop ph q metricID (pre @ r # post) =
     (if length (Data r) \<noteq> 1
      then Err (ambiguous_result_message ph q r)
      else (case Values (hd (Data r)) of [] \<Rightarrow> Panic | v # _ \<Rightarrow> Ok (True, v)))"
  by (induction pre) simp_all

lemma GetSLIValue_metrics_branch:
  assumes "getTimeseriesConfig ph metric = Inr metricsQuery"
    and "\<not> HasPrefix metricsQuery ''USQL;''" and "\<not> HasPrefix metricsQuery ''SLO;''"
    and "\<not> HasPrefix metricsQuery ''PV2;''" and "\<not> HasPrefix metricsQuery ''SECPV2;''"
  shows "GetSLIValue ph metric startUnix endUnix =
           (case GetSLIValue_metrics ph metricsQuery startUnix endUnix of
              Panic \<Rightarrow> Panic
            | Err e \<Rightarrow> Err e
            | Ok (metricIDExists, actualMetricValue) \<Rightarrow>
                if \<not> metricIDExists
                then Err (''Not able to query identifier '' @ metric @ '' from Dynatrace'')
                else Ok actualMetricValue)"
  using assms by (simp add: GetSLIValue_def)

text \<open>
  C5: when \<open>GetSLIValue\<close> replays a legacy bare or \<open>MV2\<close>-prefixed metrics query (a stored
  query with none of the prefixes \<open>USQL;\<close>, \<open>SLO;\<close>, \<open>PV2;\<close>, \<open>SECPV2;\<close>), the query is built
  and executed, and the first result entry whose identifier matches the expected metric
  identifier holds more than one data row, then \<open>GetSLIValue\<close> returns the error that
  reports the number of rows; it returns no value.
\<close>

theorem GetSLIValue_ambiguous_result:
  assumes "getTimeseriesConfig ph metric = Inr storedQuery"
    and "\<not> HasPrefix storedQuery ''USQL;''" and "\<not> HasPrefix storedQuery ''SLO;''"
    and "\<not> HasPrefix storedQuery ''PV2;''" and "\<not> HasPrefix storedQuery ''SECPV2;''"
    and "cut_MV2 storedQuery = Ok (metricUnit, metricsQuery)"
    and "BuildDynatraceMetricsQuery ph metricsQuery startUnix endUnix = Inr (finalURL, metricID)"
    and "ExecuteMetricsAPIQuery ph finalURL = Inr result"
    and "Result result = pre @ r # post"
    and "\<forall>r'\<in>set pre. \<not> isMatchingMetricID (MetricID r') metricID"
    and "isMatchingMetricID (MetricID r) metricID"
    and "1 < length (Data r)"
  shows "GetSLIValue ph metric startUnix endUnix =
           Err (''Dynatrace Metrics API returned '' @ Itoa (int (length (Data r))) @
                '' result values, expected 1 for query: '' @ finalURL @ ''.'' @ [CHR 0x0A] @
                ''Please ensure the response contains exactly one value (e.g., by using :merge(0):avg for the metric). Here is the output for troubleshooting: '' @
                Marshal ph r) \<and>
         (\<forall>v. GetSLIValue ph metric startUnix endUnix \<noteq> Ok v)"
proof -
  have "metrics_results_loop ph finalURL metricID (Result result) =
          Err (ambiguous_result_message ph finalURL r)"
    using assms(9-12) by (simp add: metrics_results_loop_first)
  then have "GetSLIValue_metrics ph storedQuery startUnix endUnix =
          Err (ambiguous_result_message ph finalURL r)"
    using assms(6-8) by (simp add: GetSLIValue_metrics_def)
  then show ?thesis
    using GetSLIValue_metrics_branch [OF assms(1-5)]
    by (simp add: ambiguous_result_message_def)
qed

theorem GetSLIValue_ambiguous_result_witness:
  "getTimeseriesConfig (ph_cpu rows_two_hosts) ''cpu'' = Inr (''MV2;Percent;'' @ cpu_query) \<and>
   \<not> HasPrefix (''MV2;Percent;'' @ cpu_query) ''USQL;'' \<and>
   \<not> HasPrefix (''MV2;Percent;'' @ cpu_query) ''SLO;'' \<and>
   \<not> HasPrefix (''MV2;Percent;'' @ cpu_query) ''PV2;'' \<and>
   \<not> HasPrefix (''MV2;Percent;'' @ cpu_query) ''SECPV2;'' \<and>
   cut_MV2 (''MV2;Percent;'' @ cpu_query) = Ok (''Percent'', cpu_query) \<and>
   BuildDynatraceMetricsQuery (ph_cpu rows_two_hosts) cpu_query 0 60 = Inr (cpu_url, cpu_metricID) \<and>
   ExecuteMetricsAPIQuery (ph_cpu rows_two_hosts) cpu_url =
     Inr \<lparr>Result = [\<lparr>MetricID = cpu_metricID, Data = rows_two_hosts\<rparr>]\<rparr> \<and>
   isMatchingMetricID cpu_metricID cpu_metricID \<and>
   length rows_two_hosts = 2 \<and>
   GetSLIValue (ph_cpu rows_two_hosts) ''cpu'' 0 60 =
     Err (''Dynatrace Metrics API returned 2 result values, expected 1 for query: '' @ cpu_url @
          ''.'' @ [CHR 0x0A] @
          ''Please ensure the response contains exactly one value (e.g., by using :merge(0):avg for the metric). Here is the output for troubleshooting: '' @
          cpu_metricID)"
proof -
  let ?ph = "ph_cpu rows_two_hosts"
  let ?r = "\<lparr>MetricID = cpu_metricID, Data = rows_two_hosts\<rparr>"
  have c: "getTimeseriesConfig ?ph ''cpu'' = Inr (''MV2;Percent;'' @ cpu_query)"
    by code_simp
  have p: "\<not> HasPrefix (''MV2;Percent;'' @ cpu_query) ''USQL;''"
      "\<not> HasPrefix (''MV2;Percent;'' @ cpu_query) ''SLO;''"
      "\<not> HasPrefix (''MV2;Percent;'' @ cpu_query) ''PV2;''"
      "\<not> HasPrefix (''MV2;Percent;'' @ cpu_query) ''SECPV2;''"
    by code_simp+
  have m: "cut_MV2 (''MV2;Percent;'' @ cpu_query) = Ok (''Percent'', cpu_query)"
    by code_simp
  have b: "BuildDynatraceMetricsQuery ?ph cpu_query 0 60 = Inr (cpu_url, cpu_metricID)"
    by code_simp
  have x: "ExecuteMetricsAPIQuery ?ph cpu_url = Inr \<lparr>Result = [?r]\<rparr>"
    by code_simp
  have i: "isMatchingMetricID (MetricID ?r) cpu_metricID"
    by code_simp
  have l: "length rows_two_hosts = 2"
    by code_simp
  have n: "Itoa (int (length (Data ?r))) = ''2''"
    by code_simp
  have j: "Marshal ?ph ?r = cpu_metricID"
    by code_simp
  have "GetSLIValue ?ph ''cpu'' 0 60 =
          Err (''Dynatrace Metrics API returned '' @ Itoa (int (length (Data ?r))) @
               '' result values, expected 1 for query: '' @ cpu_url @ ''.'' @ [CHR 0x0A] @
               ''Please ensure the response contains exactly one value (e.g., by using :merge(0):avg for the metric). Here is the output for troubleshooting: '' @
               Marshal ?ph ?r)"
    using GetSLIValue_ambiguous_result [OF c p m b x, of "[]" ?r "[]"] i l by simp
  with c p m b x i l show ?thesis
    unfolding n j by simp
qed

subsection \<open>Synthesis: dimensioned results\<close>

lemma dimensions_loop_Ok:
  assumes "dimensionIncrement = 1 \<or> (dimensionIncrement = 2 \<and> even (length dims))"
  shows "\<exists>f m. dimensions_loop dimensionIncrement fAgg eSel dims (n, f0, m0) =
           Ok (n @ concat (map (\<lambda>v. CHR ''_'' # v) (at_stride dimensionIncrement dims)), f, m)"
  using assms
proof (induction "length dims" arbitrary: dims n f0 m0 rule: less_induct)
  case less
  show ?case
  proof (cases dims)
    case Nil
    then show ?thesis by simp
  next
    case (Cons d rest)
    have shorter: "length (drop (dimensionIncrement - 1) rest) < length dims"
      using Cons by simp
    have inv: "dimensionIncrement = 1 \<or>
               (dimensionIncrement = 2 \<and> even (length (drop (dimensionIncrement - 1) rest)))"
      using less.prems Cons by auto
    from less.hyps [OF shorter inv]
    have step: "\<exists>f m. dimensions_loop dimensionIncrement fAgg eSel
                        (drop (dimensionIncrement - 1) rest) (n', f', m') =
           Ok (n' @ concat (map (\<lambda>v. CHR ''_'' # v)
                 (at_stride dimensionIncrement (drop (dimensionIncrement - 1) rest))), f, m)"
      for n' f' m' by blast
    show ?thesis
    proof (cases "eSel \<noteq> '''' \<and> dimensionIncrement = 2")
      case True
      with less.prems Cons obtain e rest' where r: "rest = e # rest'"
        by (cases rest) auto
      from step [of "n @ ''_'' @ d"] show ?thesis
        using Cons True r by (simp add: Let_def)
    next
      case False
      from step [of "n @ ''_'' @ d"] show ?thesis
        using Cons False by (auto simp add: Let_def)
    qed
  qed
qed

lemma dimensionIncrement_of_cases:
  "dimensionIncrement_of a row = 1 \<or>
   (dimensionIncrement_of a row = 2 \<and> even (length (Dimensions row)))"
  by (simp add: dimensionIncrement_of_def)

lemma process_data_entry_many:
  assumes "1 < dataResultCount"
  shows "\<exists>sli'. process_data_entry ph a dataResultCount row (rs, sli, slo) =
           Ok (rs @ [row_result ph a row], sli',
               slo\<lparr>Objectives := Objectives slo @ [row_objective ph a row]\<rparr>) \<and>
           dom (Indicators sli') = insert (CleanIndicatorName ph (suffixed_name a row)) (dom (Indicators sli))"
proof -
  from dimensions_loop_Ok [OF dimensionIncrement_of_cases]
  obtain f m where "dimensions_loop (dimensionIncrement_of a row)
      (arg_filterSLIDefinitionAggregator a) (arg_entitySelectorSLIDefinition a)
      (Dimensions row) (arg_baseIndicatorName a, '':names'', arg_metricQuery a) =
      Ok (suffixed_name a row, f, m)"
    unfolding suffixed_name_def by blast
  with assms show ?thesis
    by (auto simp add: process_data_entry_def row_result_def row_objective_def Let_def)
qed

lemma data_loop_many:
  assumes "1 < dataResultCount"
  shows "\<exists>sli'. data_loop ph a dataResultCount rows (rs, sli, slo) =
           Ok (rs @ map (row_result ph a) rows, sli',
               slo\<lparr>Objectives := Objectives slo @ map (row_objective ph a) rows\<rparr>) \<and>
           dom (Indicators sli') =
             dom (Indicators sli) \<union> (\<lambda>row. CleanIndicatorName ph (suffixed_name a row)) ` set rows"
proof (induction rows arbitrary: rs sli slo)
  case Nil
  show ?case by simp
next
  case (Cons row rows)
  from process_data_entry_many [OF assms, of ph a row rs sli slo]
  obtain sli1 where 1: "process_data_entry ph a dataResultCount row (rs, sli, slo) =
           Ok (rs @ [row_result ph a row], sli1,
               slo\<lparr>Objectives := Objectives slo @ [row_objective ph a row]\<rparr>)"
    and d1: "dom (Indicators sli1) = insert (CleanIndicatorName ph (suffixed_name a row)) (dom (Indicators sli))"
    by blast
  from Cons [of "rs @ [row_result ph a row]" sli1
               "slo\<lparr>Objectives := Objectives slo @ [row_objective ph a row]\<rparr>"]
  obtain sli2 where 2: "data_loop ph a dataResultCount rows
       (rs @ [row_result ph a row], sli1,
        slo\<lparr>Objectives := Objectives slo @ [row_objective ph a row]\<rparr>) =
       Ok ((rs @ [row_result ph a row]) @ map (row_result ph a) rows, sli2,
           slo\<lparr>Objectives := Objectives slo @ [row_objective ph a row]\<rparr>
             \<lparr>Objectives := Objectives (slo\<lparr>Objectives := Objectives slo @ [row_objective ph a row]\<rparr>) @
                 map (row_objective ph a) rows\<rparr>)"
    and d2: "dom (Indicators sli2) = dom (Indicators sli1) \<union>
               (\<lambda>row. CleanIndicatorName ph (suffixed_name a row)) ` set rows"
    by blast
  show ?case
    using 1 2 d1 d2 by (intro exI [of _ sli2]) auto
qed

lemma process_data_entry_Ok: "\<exists>st'. process_data_entry ph a n row st = Ok st'"
proof -
  from dimensions_loop_Ok [OF dimensionIncrement_of_cases]
  obtain f m where "dimensions_loop (dimensionIncrement_of a row)
      (arg_filterSLIDefinitionAggregator a) (arg_entitySelectorSLIDefinition a)
      (Dimensions row) (arg_baseIndicatorName a, '':names'', arg_metricQuery a) =
      Ok (suffixed_name a row, f, m)"
    unfolding suffixed_name_def by blast
  moreover obtain rs sli slo where "st = (rs, sli, slo)"
    by (cases st) auto
  ultimately show ?thesis
    by (simp add: process_data_entry_def Let_def)
qed

lemma data_loop_Ok: "\<exists>st'. data_loop ph a n rows st = Ok st'"
proof (induction rows arbitrary: st)
  case Nil
  show ?case by (simp del: split_paired_Ex)
next
  case (Cons row rows)
  from process_data_entry_Ok obtain st1 where "process_data_entry ph a n row st = Ok st1"
    by blast
  with Cons [of st1] show ?case by simp
qed

lemma results_loop_Ok: "\<exists>st'. results_loop ph a rs st = Ok st'"
proof (induction rs arbitrary: st)
  case Nil
  show ?case by (simp del: split_paired_Ex)
next
  case (Cons r rs)
  from data_loop_Ok obtain st1 where "data_loop ph a (length (Data r)) (Data r) st = Ok st1"
    by blast
  with Cons [of st1] Cons [of st] show ?case by simp
qed

lemma results_loop_append:
  "results_loop ph a xs st = Ok st' \<Longrightarrow>
   results_loop ph a (xs @ ys) st = results_loop ph a ys st'"
proof (induction xs arbitrary: st)
  case Nil
  then show ?case by simp
next
  case (Cons r xs)
  then show ?case
    by (auto split: if_splits outcome.splits)
qed

text \<open>
  C6: whenever the metrics query executed during synthesis returns a result whose
  identifier matches and that holds N > 1 data rows, that result contributes exactly N
  results, in the order of its rows, after those of the earlier results and before those
  of the later ones. The name of each is the base name suffixed with \<open>_\<close> and a
  dimension value for every position reached at stride 2, or at stride 1 when the row's
  dimension count is not twice the chart's split-dimension count (\<open>suffixed_name\<close>),
  passed through \<open>CleanIndicatorName\<close>. Each row contributes one indicator entry and one
  objective with the tile's pass and warning criteria, weight and key flag.
\<close>

theorem dimensioned_result_expands:
  assumes "ExecuteMetricsAPIQuery ph (arg_fullMetricQuery a) = Inr queryResult"
    and "Result queryResult = pre @ r # post"
    and "isMatchingMetricID (MetricID r) (arg_metricID a)"
    and "1 < length (Data r)"
  shows "\<exists>rs1 sli1 slo1 sli2.
           results_loop ph a pre ([], dashboardSLI, dashboardSLO) = Ok (rs1, sli1, slo1) \<and>
           GenerateSLISLOFromMetricsAPIQuery ph a dashboardSLI dashboardSLO =
             results_loop ph a post
               (rs1 @ map (\<lambda>row.
                    \<lparr>Metric = CleanIndicatorName ph (suffixed_name a row),
                     Value = map_option (scaleData (arg_metricID a) (arg_metricUnit a))
                               (mean (Values row)),
                     Success = True, Message = ''''\<rparr>) (Data r),
                sli2,
                slo1\<lparr>Objectives := Objectives slo1 @ map (\<lambda>row.
                    \<lparr>SLI = CleanIndicatorName ph (suffixed_name a row), Weight = arg_weight a,
                     KeySLI = arg_keySli a, Pass = arg_passSLOs a, Warning = arg_warningSLOs a\<rparr>)
                    (Data r)\<rparr>) \<and>
           dom (Indicators sli2) =
             dom (Indicators sli1) \<union>
             (\<lambda>row. CleanIndicatorName ph (suffixed_name a row)) ` set (Data r)"
proof -
  from results_loop_Ok obtain st1
    where pre: "results_loop ph a pre ([], dashboardSLI, dashboardSLO) = Ok st1"
    by blast
  obtain rs1 sli1 slo1 where st1: "st1 = (rs1, sli1, slo1)"
    by (cases st1) auto
  from data_loop_many [OF assms(4), of ph a "Data r" rs1 sli1 slo1]
  obtain sli2 where d: "data_loop ph a (length (Data r)) (Data r) (rs1, sli1, slo1) =
           Ok (rs1 @ map (row_result ph a) (Data r), sli2,
               slo1\<lparr>Objectives := Objectives slo1 @ map (row_objective ph a) (Data r)\<rparr>)"
    and dm: "dom (Indicators sli2) =
             dom (Indicators sli1) \<union> (\<lambda>row. CleanIndicatorName ph (suffixed_name a row)) ` set (Data r)"
    by blast
  have "GenerateSLISLOFromMetricsAPIQuery ph a dashboardSLI dashboardSLO =
          results_loop ph a (pre @ r # post) ([], dashboardSLI, dashboardSLO)"
    using assms(1,2) by (simp add: GenerateSLISLOFromMetricsAPIQuery_def)
  also have "\<dots> = results_loop ph a (r # post) (rs1, sli1, slo1)"
    using results_loop_append [OF pre] st1 by simp
  also have "\<dots> = results_loop ph a post
       (rs1 @ map (row_result ph a) (Data r), sli2,
        slo1\<lparr>Objectives := Objectives slo1 @ map (row_objective ph a) (Data r)\<rparr>)"
    using assms(3) d by simp
  finally show ?thesis
    using pre st1 dm unfolding row_result_def row_objective_def by blast
qed

theorem dimensioned_result_expands_witness:
  "ExecuteMetricsAPIQuery (ph_cpu rows_three_hosts) (arg_fullMetricQuery args_cpu) =
     Inr \<lparr>Result = [\<lparr>MetricID = cpu_metricID, Data = rows_three_hosts\<rparr>]\<rparr> \<and>
   isMatchingMetricID cpu_metricID (arg_metricID args_cpu) \<and>
   length rows_three_hosts = 3 \<and>
   map Metric (results_of (GenerateSLISLOFromMetricsAPIQuery (ph_cpu rows_three_hosts) args_cpu
                 initial_SLI initial_SLO)) = [''cpu_host_a'', ''cpu_host-b'', ''cpu_host-c''] \<and>
   objectives_of (GenerateSLISLOFromMetricsAPIQuery (ph_cpu rows_three_hosts) args_cpu
                 initial_SLI initial_SLO) =
     [\<lparr>SLI = ''cpu_host_a'', Weight = 2, KeySLI = True, Pass = [[''<=80'']], Warning = []\<rparr>,
      \<lparr>SLI = ''cpu_host-b'', Weight = 2, KeySLI = True, Pass = [[''<=80'']], Warning = []\<rparr>,
      \<lparr>SLI = ''cpu_host-c'', Weight = 2, KeySLI = True, Pass = [[''<=80'']], Warning = []\<rparr>]"
proof -
  let ?ph = "ph_cpu rows_three_hosts"
  let ?r = "\<lparr>MetricID = cpu_metricID, Data = rows_three_hosts\<rparr>"
  let ?G = "GenerateSLISLOFromMetricsAPIQuery ?ph args_cpu initial_SLI initial_SLO"
  have x: "ExecuteMetricsAPIQuery ?ph (arg_fullMetricQuery args_cpu) = Inr \<lparr>Result = [?r]\<rparr>"
    by code_simp
  have i: "isMatchingMetricID (MetricID ?r) (arg_metricID args_cpu)"
    by code_simp
  have l: "length rows_three_hosts = 3"
    by code_simp
  have l': "1 < length (Data ?r)"
    using l by simp
  have r: "Result \<lparr>Result = [?r]\<rparr> = [] @ ?r # []"
    by simp
  from dimensioned_result_expands [OF x r i l', of initial_SLI initial_SLO]
  obtain sli2 where "?G =
      Ok (map (\<lambda>row. \<lparr>Metric = CleanIndicatorName ?ph (suffixed_name args_cpu row),
                     Value = map_option (scaleData (arg_metricID args_cpu) (arg_metricUnit args_cpu))
                               (mean (Values row)),
                     Success = True, Message = ''''\<rparr>) rows_three_hosts,
          sli2,
          initial_SLO\<lparr>Objectives := Objectives initial_SLO @ map (\<lambda>row.
                    \<lparr>SLI = CleanIndicatorName ?ph (suffixed_name args_cpu row),
                     Weight = arg_weight args_cpu, KeySLI = arg_keySli args_cpu,
                     Pass = arg_passSLOs args_cpu, Warning = arg_warningSLOs args_cpu\<rparr>)
                    rows_three_hosts\<rparr>)"
    by auto
  then have m: "map Metric (results_of ?G) =
          map (\<lambda>row. CleanIndicatorName ?ph (suffixed_name args_cpu row)) rows_three_hosts"
    and o: "objectives_of ?G = Objectives initial_SLO @ map (\<lambda>row.
                    \<lparr>SLI = CleanIndicatorName ?ph (suffixed_name args_cpu row),
                     Weight = arg_weight args_cpu, KeySLI = arg_keySli args_cpu,
                     Pass = arg_passSLOs args_cpu, Warning = arg_warningSLOs args_cpu\<rparr>)
                    rows_three_hosts"
    by (simp_all add: results_of_def objectives_of_def comp_def)
  have m': "map (\<lambda>row. CleanIndicatorName ?ph (suffixed_name args_cpu row)) rows_three_hosts =
          [''cpu_host_a'', ''cpu_host-b'', ''cpu_host-c'']"
    by code_simp
  have o': "Objectives initial_SLO @ map (\<lambda>row.
                    \<lparr>SLI = CleanIndicatorName ?ph (suffixed_name args_cpu row),
                     Weight = arg_weight args_cpu, KeySLI = arg_keySli args_cpu,
                     Pass = arg_passSLOs args_cpu, Warning = arg_warningSLOs args_cpu\<rparr>)
                    rows_three_hosts =
     [\<lparr>SLI = ''cpu_host_a'', Weight = 2, KeySLI = True, Pass = [[''<=80'']], Warning = []\<rparr>,
      \<lparr>SLI = ''cpu_host-b'', Weight = 2, KeySLI = True, Pass = [[''<=80'']], Warning = []\<rparr>,
      \<lparr>SLI = ''cpu_host-c'', Weight = 2, KeySLI = True, Pass = [[''<=80'']], Warning = []\<rparr>]"
    by code_simp
  from x i l m o show ?thesis
    unfolding m' o' by simp
qed

subsection \<open>Round trip of the stored query\<close>











subsection \<open>The results of a pass are only appended to\<close>

lemma process_data_entry_grows:
  "process_data_entry ph a n row st = Ok st' \<Longrightarrow> prefix (fst st) (fst st')"
  by (cases st) (auto simp: process_data_entry_def Let_def split: outcome.splits if_splits)

lemma data_loop_grows:
  "data_loop ph a n rows st = Ok st' \<Longrightarrow> prefix (fst st) (fst st')"
proof (induction rows arbitrary: st)
  case Nil
  then show ?case by simp
next
  case (Cons row rows)
  then obtain st1 where 1: "process_data_entry ph a n row st = Ok st1"
    and 2: "data_loop ph a n rows st1 = Ok st'"
    by (auto split: outcome.splits)
  from process_data_entry_grows [OF 1] Cons.IH [OF 2] show ?case
    by (rule prefix_order.trans)
qed

lemma results_loop_grows:
  "results_loop ph a rs st = Ok st' \<Longrightarrow> prefix (fst st) (fst st')"
proof (induction rs arbitrary: st)
  case Nil
  then show ?case by simp
next
  case (Cons r rs)
  show ?case
  proof (cases "isMatchingMetricID (MetricID r) (arg_metricID a)")
    case True
    with Cons.prems obtain st1 where 1: "data_loop ph a (length (Data r)) (Data r) st = Ok st1"
      and 2: "results_loop ph a rs st1 = Ok st'"
      by (auto split: outcome.splits)
    from data_loop_grows [OF 1] Cons.IH [OF 2] show ?thesis
      by (rule prefix_order.trans)
  next
    case False
    with Cons show ?thesis by simp
  qed
qed













subsection \<open>A failed query\<close>



subsection \<open>The open-problems tile\<close>

lemma problemSelector_of_nonempty: "status \<noteq> [] \<Longrightarrow> problemSelector_of status dj tile \<noteq> []"
  by (simp add: problemSelector_of_def Let_def split: option.splits)

text \<open>
  C4: for every dashboard tile whose \<open>TileType\<close> is \<open>OPEN_PROBLEMS\<close>, the loop body runs
  the open-problems branch and the open-security-problems branch: when both backend
  calls succeed, the tile appends a result, an indicator entry and an objective under the
  name \<open>problems\<close> and then under the name \<open>security_problems\<close>, and nothing else.
\<close>

theorem open_problems_tile_runs_both_branches:
  assumes "t_TileType tile = ''OPEN_PROBLEMS''"
    and "ExecuteGetDynatraceProblems ph
           (''problemSelector='' @ problemSelector_of ''status(open)'' dashboardJSON tile)
           startUnix endUnix = Inr problemCount"
    and "ExecuteGetDynatraceSecurityProblems ph
           (''securityProblemSelector='' @ problemSelector_of ''status(OPEN)'' dashboardJSON tile)
           startUnix endUnix = Inr securityProblemCount"
  shows "\<exists>objective1 objective2.
           process_tile ph dashboardJSON startUnix endUnix tile
               (sliResults, dashboardSLI, dashboardSLO) =
             Ok (sliResults @
                   [\<lparr>Metric = ''problems'', Value = Some (real_of_int problemCount),
                     Success = True, Message = ''''\<rparr>,
                    \<lparr>Metric = ''security_problems'',
                     Value = Some (real_of_int securityProblemCount),
                     Success = True, Message = ''''\<rparr>],
                 dashboardSLI\<lparr>Indicators := (Indicators dashboardSLI)
                    (''problems'' \<mapsto> ''PV2;problemSelector='' @
                        problemSelector_of ''status(open)'' dashboardJSON tile,
                     ''security_problems'' \<mapsto> ''SECPV2;securityProblemSelector='' @
                        problemSelector_of ''status(OPEN)'' dashboardJSON tile)\<rparr>,
                 dashboardSLO\<lparr>Objectives := Objectives dashboardSLO @ [objective1, objective2]\<rparr>) \<and>
           SLI objective1 = ''problems'' \<and> SLI objective2 = ''security_problems''"
proof -
  let ?st = "(sliResults, dashboardSLI, dashboardSLO)"
  obtain n1 p1 w1 wt1 k1 where t1:
    "ParsePassAndWarningFromString ph ''sli=problems;pass=<=0;key=true'' = (n1, p1, w1, wt1, k1)"
    by (metis prod_cases5)
  obtain n2 p2 w2 wt2 k2 where t2:
    "ParsePassAndWarningFromString ph ''sli=security_problems;pass=<=0;key=true'' =
       (n2, p2, w2, wt2, k2)"
    by (metis prod_cases5)
  let ?o1 = "\<lparr>SLI = ''problems'', Weight = wt1, KeySLI = k1, Pass = p1, Warning = w1\<rparr>"
  let ?o2 = "\<lparr>SLI = ''security_problems'', Weight = wt2, KeySLI = k2, Pass = p2, Warning = w2\<rparr>"
  let ?st1 = "(sliResults @ [\<lparr>Metric = ''problems'', Value = Some (real_of_int problemCount),
                     Success = True, Message = ''''\<rparr>],
               dashboardSLI\<lparr>Indicators := (Indicators dashboardSLI)
                    (''problems'' \<mapsto> ''PV2;problemSelector='' @
                        problemSelector_of ''status(open)'' dashboardJSON tile)\<rparr>,
               dashboardSLO\<lparr>Objectives := Objectives dashboardSLO @ [?o1]\<rparr>)"
  let ?st2 = "(sliResults @
                   [\<lparr>Metric = ''problems'', Value = Some (real_of_int problemCount),
                     Success = True, Message = ''''\<rparr>,
                    \<lparr>Metric = ''security_problems'',
                     Value = Some (real_of_int securityProblemCount),
                     Success = True, Message = ''''\<rparr>],
                 dashboardSLI\<lparr>Indicators := (Indicators dashboardSLI)
                    (''problems'' \<mapsto> ''PV2;problemSelector='' @
                        problemSelector_of ''status(open)'' dashboardJSON tile,
                     ''security_problems'' \<mapsto> ''SECPV2;securityProblemSelector='' @
                        problemSelector_of ''status(OPEN)'' dashboardJSON tile)\<rparr>,
                 dashboardSLO\<lparr>Objectives := Objectives dashboardSLO @ [?o1, ?o2]\<rparr>)"
  have ne: "problemSelector_of ''status(open)'' dashboardJSON tile \<noteq> []"
      "problemSelector_of ''status(OPEN)'' dashboardJSON tile \<noteq> []"
    by (simp_all add: problemSelector_of_nonempty)
  have 1: "open_problems_step ph dashboardJSON startUnix endUnix tile ?st = ?st1"
    using assms(2) ne t1
    by (simp add: open_problems_step_def ProcessOpenProblemTile_def add_tile_output_def Let_def)
  have 2: "open_security_problems_step ph dashboardJSON startUnix endUnix tile ?st1 = ?st2"
    using assms(3) ne t2
    by (simp add: open_security_problems_step_def ProcessOpenSecurityProblemTile_def
        add_tile_output_def Let_def)
  have "process_tile ph dashboardJSON startUnix endUnix tile ?st = Ok ?st2"
    using assms(1) 1 2 by (simp add: process_tile_def Let_def)
  then show ?thesis
    by (intro exI [of _ ?o1] exI [of _ ?o2]) simp
qed

theorem open_problems_tile_runs_both_branches_witness:
  "t_TileType tile_problems = ''OPEN_PROBLEMS'' \<and>
   ExecuteGetDynatraceProblems ph_problems
     (''problemSelector='' @ problemSelector_of ''status(open)'' dashboard_two_tiles tile_problems)
     0 60 = Inr 3 \<and>
   ExecuteGetDynatraceSecurityProblems ph_problems
     (''securityProblemSelector='' @
      problemSelector_of ''status(OPEN)'' dashboard_two_tiles tile_problems) 0 60 = Inr 1 \<and>
   results_of (process_tile ph_problems dashboard_two_tiles 0 60 tile_problems
                 ([], initial_SLI, initial_SLO)) =
     [\<lparr>Metric = ''problems'', Value = Some 3, Success = True, Message = ''''\<rparr>,
      \<lparr>Metric = ''security_problems'', Value = Some 1, Success = True, Message = ''''\<rparr>] \<and>
   indicators_of (process_tile ph_problems dashboard_two_tiles 0 60 tile_problems
                 ([], initial_SLI, initial_SLO)) ''problems'' =
     Some ''PV2;problemSelector=status(open)'' \<and>
   indicators_of (process_tile ph_problems dashboard_two_tiles 0 60 tile_problems
                 ([], initial_SLI, initial_SLO)) ''security_problems'' =
     Some ''SECPV2;securityProblemSelector=status(OPEN)'' \<and>
   map SLI (objectives_of (process_tile ph_problems dashboard_two_tiles 0 60 tile_problems
                 ([], initial_SLI, initial_SLO))) = [''problems'', ''security_problems'']"
proof -
  let ?P = "process_tile ph_problems dashboard_two_tiles 0 60 tile_problems
              ([], initial_SLI, initial_SLO)"
  have t: "t_TileType tile_problems = ''OPEN_PROBLEMS''"
    by code_simp
  have p: "ExecuteGetDynatraceProblems ph_problems
     (''problemSelector='' @ problemSelector_of ''status(open)'' dashboard_two_tiles tile_problems)
     0 60 = Inr 3"
    by code_simp
  have s: "ExecuteGetDynatraceSecurityProblems ph_problems
     (''securityProblemSelector='' @
      problemSelector_of ''status(OPEN)'' dashboard_two_tiles tile_problems) 0 60 = Inr 1"
    by code_simp
  have q: "''PV2;problemSelector='' @
             problemSelector_of ''status(open)'' dashboard_two_tiles tile_problems =
           ''PV2;problemSelector=status(open)''"
      "''SECPV2;securityProblemSelector='' @
             problemSelector_of ''status(OPEN)'' dashboard_two_tiles tile_problems =
           ''SECPV2;securityProblemSelector=status(OPEN)''"
    by code_simp+
  have o: "Objectives initial_SLO = []"
    by (simp add: initial_SLO_def)
  from open_problems_tile_runs_both_branches [OF t p s, of "[]" initial_SLI initial_SLO]
  obtain o1 o2 where "?P =
      Ok ([] @ [\<lparr>Metric = ''problems'', Value = Some (real_of_int 3), Success = True,
                 Message = ''''\<rparr>,
                \<lparr>Metric = ''security_problems'', Value = Some (real_of_int 1), Success = True,
                 Message = ''''\<rparr>],
          initial_SLI\<lparr>Indicators := (Indicators initial_SLI)
             (''problems'' \<mapsto> ''PV2;problemSelector=status(open)'',
              ''security_problems'' \<mapsto> ''SECPV2;securityProblemSelector=status(OPEN)'')\<rparr>,
          initial_SLO\<lparr>Objectives := Objectives initial_SLO @ [o1, o2]\<rparr>)"
    and "SLI o1 = ''problems''" and "SLI o2 = ''security_problems''"
    unfolding q by blast
  then have "results_of ?P =
     [\<lparr>Metric = ''problems'', Value = Some 3, Success = True, Message = ''''\<rparr>,
      \<lparr>Metric = ''security_problems'', Value = Some 1, Success = True, Message = ''''\<rparr>]"
    "indicators_of ?P ''problems'' = Some ''PV2;problemSelector=status(open)''"
    "indicators_of ?P ''security_problems'' = Some ''SECPV2;securityProblemSelector=status(OPEN)''"
    "map SLI (objectives_of ?P) = [''problems'', ''security_problems'']"
    by (simp_all add: results_of_def indicators_of_def objectives_of_def o)
  with t p s show ?thesis
    by simp
qed

subsection \<open>An unchanged dashboard\<close>

text \<open>
  C8: if the serialized content of the fetched dashboard contains the marker
  \<open>KQG.QueryBehavior=ParseOnChange\<close> and equals the stored dashboard content, then
  \<open>HasDashboardChanged\<close> is false and the pass returns the link label only: no dashboard,
  no indicators, no objectives, no results and no error.
\<close>

theorem unchanged_dashboard_short_circuits:
  assumes "loadDynatraceDashboard ph keptnEvent (dashboard_parameter ph dashboard0) =
             (Some dashboardJSON, dashboard, None)"
    and "Contains (MarshalIndent ph dashboardJSON) ''KQG.QueryBehavior=ParseOnChange''"
    and "MarshalIndent ph dashboardJSON = fst (GetKeptnResource ph)"
  shows "\<not> HasDashboardChanged ph dashboardJSON (fst (GetKeptnResource ph)) \<and>
         QueryDynatraceDashboardForSLIs ph keptnEvent dashboard0 startUnix endUnix =
           Ok \<lparr>dashboardLinkAsLabel = dashboard_link ph dashboardJSON startUnix endUnix,
               res_dashboard = None, res_SLI = None, res_SLO = None, res_sliResults = [],
               res_error = None\<rparr>"
proof -
  have h: "\<not> HasDashboardChanged ph dashboardJSON (fst (GetKeptnResource ph))"
    using assms(2,3) by (simp add: HasDashboardChanged_def)
  obtain existing resourceErr where r: "GetKeptnResource ph = (existing, resourceErr)"
    by (cases "GetKeptnResource ph")
  from h r assms(1) show ?thesis
    by (simp add: QueryDynatraceDashboardForSLIs_def)
qed

theorem unchanged_dashboard_short_circuits_witness:
  "fst (loadDynatraceDashboard ph_unchanged ev_shop
          (dashboard_parameter ph_unchanged ''12345678-1234-4234-8234-123456789012'')) =
     Some dashboard_marked \<and>
   Contains (MarshalIndent ph_unchanged dashboard_marked) ''KQG.QueryBehavior=ParseOnChange'' \<and>
   MarshalIndent ph_unchanged dashboard_marked = fst (GetKeptnResource ph_unchanged) \<and>
   QueryDynatraceDashboardForSLIs ph_unchanged ev_shop ''12345678-1234-4234-8234-123456789012''
       0 60 =
     Ok \<lparr>dashboardLinkAsLabel =
           ''https://dt#dashboard;id=12345678-1234-4234-8234-123456789012;gtf=c_0_60000'',
         res_dashboard = None, res_SLI = None, res_SLO = None, res_sliResults = [],
         res_error = None\<rparr>"
proof -
  let ?id = "''12345678-1234-4234-8234-123456789012''"
  have dp: "dashboard_parameter ph_unchanged ?id = ?id"
    by code_simp
  have q: "?id \<noteq> DynatraceConfigDashboardQUERY ph_unchanged" "?id \<noteq> ''''" "IsValidUUID ?id"
    by code_simp+
  have g: "GET_dashboard ph_unchanged u = Inr dashboard_marked" for u
    by (simp add: ph_unchanged_def)
  have l: "loadDynatraceDashboard ph_unchanged ev_shop (dashboard_parameter ph_unchanged ?id) =
             (Some dashboard_marked, ?id, None)"
    unfolding dp using q g by (simp add: loadDynatraceDashboard_def)
  have c: "Contains (MarshalIndent ph_unchanged dashboard_marked) ''KQG.QueryBehavior=ParseOnChange''"
    by code_simp
  have m: "MarshalIndent ph_unchanged dashboard_marked = fst (GetKeptnResource ph_unchanged)"
    by code_simp
  have k: "dashboard_link ph_unchanged dashboard_marked 0 60 =
             ''https://dt#dashboard;id=12345678-1234-4234-8234-123456789012;gtf=c_0_60000''"
    by code_simp
  from unchanged_dashboard_short_circuits [OF l c m, of 0 60] l c m show ?thesis
    unfolding k by simp
qed

subsection \<open>UUID validation\<close>

text \<open>
  C3: \<open>IsValidUUID\<close> is meant to accept exactly the 8-4-4-4-12 hexadecimal strings with
  version nibble 4 and variant nibble among 8, 9, a, b, A, B. The bracket expression for
  the variant nibble is written \<^verbatim>\<open>[8|9|aA|bB]\<close>, so the vertical bar is one of its
  members: the string below, whose variant position holds a vertical bar, is accepted.
\<close>

theorem IsValidUUID_accepts_bar:
  "IsValidUUID ''00000000-0000-4000-|000-000000000000''"
  by (simp add: IsValidUUID_def uuid_regexp_def eval_nat_numeral class_hex_def
      class_variant_def class_lit_def)

end
